theory Spec2Isabelle
  imports Complex_Main "HOL-Library.Sublist"
begin

section \<open>JSON values as \<^verbatim>\<open>json.load\<close> produces them\<close>

text \<open>
  \<^verbatim>\<open>json.load\<close> yields \<^verbatim>\<open>None\<close>, \<^verbatim>\<open>bool\<close>, \<^verbatim>\<open>int\<close> (unbounded),
  \<^verbatim>\<open>float\<close>, \<^verbatim>\<open>str\<close>, \<^verbatim>\<open>list\<close> and \<^verbatim>\<open>dict\<close> (insertion ordered, string keys).
  A Python float is a finite binary fraction, an infinity or NaN; equality between floats and
  between a float and an int is exact, so a finite float is represented by the rational number
  it denotes.  A dict is an association list; Python dicts have pairwise distinct keys, which
  is the predicate \<open>wf_json\<close> below.
\<close>

datatype pyfloat = Finite rat | PosInf | NegInf | NaN

datatype json =
    JNull
  | JBool bool
  | JInt int
  | JFloat pyfloat
  | JString string
  | JArray "json list"
  | JObject "(string \<times> json) list"

datatype error = RuntimeError | AttributeError | TypeError | KeyError | IndexError

fun wf_json :: "json \<Rightarrow> bool"
  and wf_jsons :: "json list \<Rightarrow> bool"
  and wf_items :: "(string \<times> json) list \<Rightarrow> bool" where
  "wf_json (JArray xs) = wf_jsons xs"
| "wf_json (JObject kvs) = (distinct (map fst kvs) \<and> wf_items kvs)"
| "wf_json JNull = True"
| "wf_json (JBool b) = True"
| "wf_json (JInt i) = True"
| "wf_json (JFloat f) = True"
| "wf_json (JString s) = True"
| "wf_jsons [] = True"
| "wf_jsons (x # xs) = (wf_json x \<and> wf_jsons xs)"
| "wf_items [] = True"
| "wf_items (kv # kvs) = (wf_json (snd kv) \<and> wf_items kvs)"

fun nan_free :: "json \<Rightarrow> bool"
  and nan_frees :: "json list \<Rightarrow> bool"
  and nan_free_items :: "(string \<times> json) list \<Rightarrow> bool" where
  "nan_free (JArray xs) = nan_frees xs"
| "nan_free (JObject kvs) = nan_free_items kvs"
| "nan_free (JFloat f) = (f \<noteq> NaN)"
| "nan_free JNull = True"
| "nan_free (JBool b) = True"
| "nan_free (JInt i) = True"
| "nan_free (JString s) = True"
| "nan_frees [] = True"
| "nan_frees (x # xs) = (nan_free x \<and> nan_frees xs)"
| "nan_free_items [] = True"
| "nan_free_items (kv # kvs) = (nan_free (snd kv) \<and> nan_free_items kvs)"

subsection \<open>Python's \<^verbatim>\<open>==\<close> on these values\<close>

text \<open>
  \<^verbatim>\<open>bool\<close> is a subclass of \<^verbatim>\<open>int\<close>: \<^verbatim>\<open>True == 1\<close> and \<^verbatim>\<open>1 == 1.0\<close> hold.  NaN is
  unequal to everything, itself included.  Lists and dicts compare their elements with
  "identical or equal"; the only value for which this differs from \<^verbatim>\<open>==\<close> is the NaN object,
  which the decoder shares between all documents.
\<close>

fun num_val :: "json \<Rightarrow> pyfloat option" where
  "num_val (JBool b) = Some (Finite (if b then 1 else 0))"
| "num_val (JInt i) = Some (Finite (of_int i))"
| "num_val (JFloat f) = Some f"
| "num_val JNull = None"
| "num_val (JString s) = None"
| "num_val (JArray xs) = None"
| "num_val (JObject kvs) = None"

fun float_eq :: "pyfloat \<Rightarrow> pyfloat \<Rightarrow> bool" where
  "float_eq (Finite a) (Finite b) = (a = b)"
| "float_eq PosInf PosInf = True"
| "float_eq NegInf NegInf = True"
| "float_eq _ _ = False"

fun py_eq :: "json \<Rightarrow> json \<Rightarrow> bool"
  and py_is_or_eq :: "json \<Rightarrow> json \<Rightarrow> bool"
  and py_eq_list :: "json list \<Rightarrow> json list \<Rightarrow> bool"
  and py_eq_items :: "(string \<times> json) list \<Rightarrow> (string \<times> json) list \<Rightarrow> bool" where
  "py_eq JNull y = (y = JNull)"
| "py_eq (JString s) y = (y = JString s)"
| "py_eq (JBool b) y = (case num_val y of None \<Rightarrow> False | Some g \<Rightarrow> float_eq (Finite (if b then 1 else 0)) g)"
| "py_eq (JInt i) y = (case num_val y of None \<Rightarrow> False | Some g \<Rightarrow> float_eq (Finite (of_int i)) g)"
| "py_eq (JFloat f) y = (case num_val y of None \<Rightarrow> False | Some g \<Rightarrow> float_eq f g)"
| "py_eq (JArray xs) y = (case y of JArray ys \<Rightarrow> py_eq_list xs ys | _ \<Rightarrow> False)"
| "py_eq (JObject kvs) y =
     (case y of JObject kws \<Rightarrow> length kvs = length kws \<and> py_eq_items kvs kws | _ \<Rightarrow> False)"
| "py_is_or_eq x y = ((x = JFloat NaN \<and> y = JFloat NaN) \<or> py_eq x y)"
| "py_eq_list [] ys = (ys = [])"
| "py_eq_list (x # xs) ys = (case ys of [] \<Rightarrow> False | z # zs \<Rightarrow> py_is_or_eq x z \<and> py_eq_list xs zs)"
| "py_eq_items [] kws = True"
| "py_eq_items (kv # kvs) kws =
     ((case map_of kws (fst kv) of None \<Rightarrow> False | Some w \<Rightarrow> py_is_or_eq (snd kv) w)
      \<and> py_eq_items kvs kws)"

definition py_ne :: "json \<Rightarrow> json \<Rightarrow> bool" where
  "py_ne x y = (\<not> py_eq x y)"

subsection \<open>The duck-typed operations the comparator applies to a document\<close>

fun substring :: "string \<Rightarrow> string \<Rightarrow> bool" where
  "substring p [] = (p = [])"
| "substring p (c # cs) = (prefix p (c # cs) \<or> substring p cs)"

text \<open>\<^verbatim>\<open>len(x)\<close> and the sequence \<^verbatim>\<open>enumerate(x)\<close> walks: items of a list, keys of a dict,
  one-character strings of a str; \<^verbatim>\<open>TypeError\<close> for the other values.\<close>

fun py_seq :: "json \<Rightarrow> error + json list" where
  "py_seq (JArray xs) = Inr xs"
| "py_seq (JObject kvs) = Inr (map (\<lambda>kv. JString (fst kv)) kvs)"
| "py_seq (JString s) = Inr (map (\<lambda>c. JString [c]) s)"
| "py_seq _ = Inl TypeError"

fun py_len :: "json \<Rightarrow> error + nat" where
  "py_len (JArray xs) = Inr (length xs)"
| "py_len (JObject kvs) = Inr (length kvs)"
| "py_len (JString s) = Inr (length s)"
| "py_len _ = Inl TypeError"

text \<open>\<^verbatim>\<open>x.items()\<close>: only a dict has the method.\<close>

fun py_items :: "json \<Rightarrow> error + (string \<times> json) list" where
  "py_items (JObject kvs) = Inr kvs"
| "py_items _ = Inl AttributeError"

text \<open>\<^verbatim>\<open>key in x\<close> for a string key.\<close>

fun py_contains :: "json \<Rightarrow> string \<Rightarrow> error + bool" where
  "py_contains (JObject kvs) k = Inr (map_of kvs k \<noteq> None)"
| "py_contains (JArray xs) k = Inr (JString k \<in> set xs)"
| "py_contains (JString s) k = Inr (substring k s)"
| "py_contains _ k = Inl TypeError"

text \<open>\<^verbatim>\<open>x[key]\<close> for a string key.\<close>

fun py_getitem :: "json \<Rightarrow> string \<Rightarrow> error + json" where
  "py_getitem (JObject kvs) k = (case map_of kvs k of None \<Rightarrow> Inl KeyError | Some v \<Rightarrow> Inr v)"
| "py_getitem _ k = Inl TypeError"

text \<open>\<^verbatim>\<open>x[idx]\<close> for a non-negative index; a dict of string keys has no integer key.\<close>

fun py_index :: "json \<Rightarrow> nat \<Rightarrow> error + json" where
  "py_index (JArray xs) i = (if i < length xs then Inr (xs ! i) else Inl IndexError)"
| "py_index (JString s) i = (if i < length s then Inr (JString [s ! i]) else Inl IndexError)"
| "py_index (JObject kvs) i = Inl KeyError"
| "py_index _ i = Inl TypeError"

text \<open>\<^verbatim>\<open>x.get(prop)\<close>: only a dict has the method; a missing key gives \<^verbatim>\<open>None\<close>.\<close>

definition dict_get :: "(string \<times> json) list \<Rightarrow> string \<Rightarrow> json" where
  "dict_get kvs k = (case map_of kvs k of None \<Rightarrow> JNull | Some v \<Rightarrow> v)"

fun py_get :: "json \<Rightarrow> string \<Rightarrow> error + json" where
  "py_get (JObject kvs) k = Inr (dict_get kvs k)"
| "py_get _ k = Inl AttributeError"

section \<open>String operations\<close>

text \<open>\<^verbatim>\<open>s.replace(old, new)\<close>: leftmost non-overlapping occurrences.\<close>

function replace :: "string \<Rightarrow> string \<Rightarrow> string \<Rightarrow> string" where
  "replace [] new s = new @ concat (map (\<lambda>c. c # new) s)"
| "replace (a # as) new [] = []"
| "replace (a # as) new (c # cs) =
     (if prefix (a # as) (c # cs) then new @ replace (a # as) new (drop (length as) cs)
      else c # replace (a # as) new cs)"
  by pat_completeness auto
termination
  by (relation "measure (\<lambda>(old, new, s). length s)") auto

text \<open>\<^verbatim>\<open>s.removeprefix(p)\<close>.\<close>

definition removeprefix :: "string \<Rightarrow> string \<Rightarrow> string" where
  "removeprefix s p = (if prefix p s then drop (length p) s else s)"

text \<open>
  \<^verbatim>\<open>re.sub("\[[^()]*\]", "", s)\<close>.  At a \<^verbatim>\<open>[\<close> the class \<^verbatim>\<open>[^()]*\<close> runs greedily over
  every character that is not a parenthesis and then backtracks to the last \<^verbatim>\<open>]\<close> of that
  run; without such a \<^verbatim>\<open>]\<close> there is no match at this position.
\<close>

definition no_paren_run :: "string \<Rightarrow> string" where
  "no_paren_run cs = takeWhile (\<lambda>c. c \<noteq> CHR ''('' \<and> c \<noteq> CHR '')'') cs"

definition match_end :: "string \<Rightarrow> nat" where
  "match_end cs =
     length (no_paren_run cs) - length (takeWhile (\<lambda>c. c \<noteq> CHR '']'') (rev (no_paren_run cs)))"

function re_sub_idx :: "string \<Rightarrow> string" where
  "re_sub_idx [] = []"
| "re_sub_idx (c # cs) =
     (if c = CHR ''['' \<and> CHR '']'' \<in> set (no_paren_run cs)
      then re_sub_idx (drop (match_end cs) cs)
      else c # re_sub_idx cs)"
  by pat_completeness auto
termination
  by (relation "measure length") auto

text \<open>The f-string \<^verbatim>\<open>f"{idx}"\<close>: the decimal numeral of a non-negative integer.\<close>

function str_nat :: "nat \<Rightarrow> string" where
  "str_nat n =
     (if n < 10 then [''0123456789'' ! n] else str_nat (n div 10) @ [''0123456789'' ! (n mod 10)])"
  by pat_completeness auto
termination
  by (relation "measure id") auto

section \<open>The diff recorder (\<^verbatim>\<open>LogProcessor\<close>)\<close>

text \<open>
  The module \<^verbatim>\<open>log_processor\<close> is imported by the comparator but its source is not part of
  the files at hand; the recorder is modelled from the specification (sections 3, 4.1 and 4.2).
  A log line is kept as the data it has to encode: the kind of difference, the path and the
  values.
\<close>

datatype kind = KObject | KArray

datatype diff_entry =
    MissingProperty string
  | IncorrectType string kind json
  | UnequalValues string json json
  | MissingArrayItem string json "string option"
  | LackOfArrayItems string nat nat
  | ExceedingArrayItems string nat nat

record LogProcessor =
  log_lines :: "diff_entry list"
  curr_path :: string

text \<open>Modelled from the spec: \<^verbatim>\<open>LogProcessor()\<close>, the constructor of the absent class; the
  log starts empty and no position has been set.\<close>

definition LogProcessor_init :: LogProcessor where
  "LogProcessor_init = \<lparr>log_lines = [], curr_path = []\<rparr>"

text \<open>Modelled from the spec: \<^verbatim>\<open>LogProcessor.setup_path\<close> (absent), the path tracker's
  \<^verbatim>\<open>extend\<close>: the segment is appended to the parent path, joined by a dot, and becomes the
  current path.\<close>

definition setup_path :: "LogProcessor \<Rightarrow> string \<Rightarrow> string \<Rightarrow> LogProcessor" where
  "setup_path dl item_path key = dl\<lparr>curr_path := item_path @ ''.'' @ key\<rparr>"

text \<open>Modelled from the spec: \<^verbatim>\<open>LogProcessor.missing_property\<close> (absent): appends one line
  for the current path.\<close>

definition missing_property :: "LogProcessor \<Rightarrow> LogProcessor" where
  "missing_property dl = dl\<lparr>log_lines := log_lines dl @ [MissingProperty (curr_path dl)]\<rparr>"

text \<open>Modelled from the spec: \<^verbatim>\<open>LogProcessor.incorrect_type\<close> (absent): appends one line with
  the expected structural kind and the actual value.\<close>

definition incorrect_type :: "LogProcessor \<Rightarrow> kind \<Rightarrow> json \<Rightarrow> LogProcessor" where
  "incorrect_type dl k act =
     dl\<lparr>log_lines := log_lines dl @ [IncorrectType (curr_path dl) k act]\<rparr>"

text \<open>Modelled from the spec: \<^verbatim>\<open>LogProcessor.unequal_values\<close> (absent): appends one line with
  the expected and the actual value.\<close>

definition unequal_values :: "LogProcessor \<Rightarrow> json \<Rightarrow> json \<Rightarrow> LogProcessor" where
  "unequal_values dl exp_value act_value =
     dl\<lparr>log_lines := log_lines dl @ [UnequalValues (curr_path dl) exp_value act_value]\<rparr>"

text \<open>Modelled from the spec: \<^verbatim>\<open>LogProcessor.missing_array_item\<close> (absent): appends one line
  with the expected value and, in the keyed strategy, the identifying property.\<close>

definition missing_array_item :: "LogProcessor \<Rightarrow> json \<Rightarrow> string option \<Rightarrow> LogProcessor" where
  "missing_array_item dl exp_value target_prop =
     dl\<lparr>log_lines := log_lines dl @ [MissingArrayItem (curr_path dl) exp_value target_prop]\<rparr>"

text \<open>Modelled from the spec: \<^verbatim>\<open>LogProcessor.lack_of_array_items\<close> (absent): appends one line
  with both lengths.\<close>

definition lack_of_array_items :: "LogProcessor \<Rightarrow> nat \<Rightarrow> nat \<Rightarrow> LogProcessor" where
  "lack_of_array_items dl exp_len act_len =
     dl\<lparr>log_lines := log_lines dl @ [LackOfArrayItems (curr_path dl) exp_len act_len]\<rparr>"

text \<open>Modelled from the spec: \<^verbatim>\<open>LogProcessor.exceeding_array_items\<close> (absent): appends one
  line with both lengths.\<close>

definition exceeding_array_items :: "LogProcessor \<Rightarrow> nat \<Rightarrow> nat \<Rightarrow> LogProcessor" where
  "exceeding_array_items dl exp_len act_len =
     dl\<lparr>log_lines := log_lines dl @ [ExceedingArrayItems (curr_path dl) exp_len act_len]\<rparr>"

section \<open>The comparator (\<^verbatim>\<open>JSONComparator\<close>)\<close>

text \<open>
  The fields are those \<^verbatim>\<open>__init__\<close> assigns.  \<open>has_target_key_path\<close> is the value of
  \<^verbatim>\<open>hasattr(self, "target_key_path")\<close>: no method of the class assigns that attribute.
\<close>

record JSONComparator =
  diff_log :: LogProcessor
  target_property :: string
  properties_to_ignore :: "string list"
  left_data :: json
  right_data :: json
  has_target_key_path :: bool

text \<open>\<^verbatim>\<open>__init__\<close>, from the two parsed documents on.\<close>

definition JSONComparator_init ::
  "json \<Rightarrow> json \<Rightarrow> string option \<Rightarrow> string list option \<Rightarrow> JSONComparator" where
  "JSONComparator_init left right target_prop props_to_ignore =
     \<lparr>diff_log = LogProcessor_init,
      target_property = (case target_prop of None \<Rightarrow> [] | Some t \<Rightarrow> t),
      properties_to_ignore = (case props_to_ignore of None \<Rightarrow> [] | Some l \<Rightarrow> l),
      left_data = left,
      right_data = right,
      has_target_key_path = False\<rparr>"

definition edit_target_prop_path_root :: "JSONComparator \<Rightarrow> string \<Rightarrow> string \<Rightarrow> JSONComparator" where
  "edit_target_prop_path_root self from to =
     self\<lparr>target_property := replace from to (target_property self)\<rparr>"

definition check_array_lengths :: "LogProcessor \<Rightarrow> string \<Rightarrow> nat \<Rightarrow> nat \<Rightarrow> LogProcessor" where
  "check_array_lengths dl item_path exp_len act_len =
     (let dl1 = setup_path dl item_path ''<array>'' in
      if exp_len > act_len then lack_of_array_items dl1 exp_len act_len
      else if exp_len < act_len then exceeding_array_items dl1 exp_len act_len
      else dl1)"

definition get_target_prop_value ::
  "JSONComparator \<Rightarrow> LogProcessor \<Rightarrow> (string \<times> json) list \<Rightarrow> error + (string \<times> json)" where
  "get_target_prop_value self dl object =
     (let target_key =
            replace ''.'' [] (removeprefix (target_property self) (re_sub_idx (curr_path dl)))
      in case map_of object target_key of
           None \<Rightarrow> Inl KeyError
         | Some exp_key_val \<Rightarrow> Inr (target_key, exp_key_val))"

definition key_to_ignore :: "JSONComparator \<Rightarrow> LogProcessor \<Rightarrow> bool" where
  "key_to_ignore self dl =
     (replace ''LEFT'' ''DATA'' (replace ''RIGHT'' ''DATA'' (re_sub_idx (curr_path dl)))
        \<in> set (properties_to_ignore self))"

fun similar_row_loop :: "string \<Rightarrow> json \<Rightarrow> nat \<Rightarrow> json list \<Rightarrow> error + nat option" where
  "similar_row_loop prop prop_val idx [] = Inr None"
| "similar_row_loop prop prop_val idx (obj # rest) =
     (case py_get obj prop of
        Inl e \<Rightarrow> Inl e
      | Inr act_val \<Rightarrow>
          if py_eq act_val prop_val then Inr (Some idx)
          else similar_row_loop prop prop_val (Suc idx) rest)"

definition get_idx_of_similar_row :: "string \<Rightarrow> json \<Rightarrow> json \<Rightarrow> error + nat option" where
  "get_idx_of_similar_row prop prop_val data =
     (case py_seq data of
        Inl e \<Rightarrow> Inl e
      | Inr objs \<Rightarrow> similar_row_loop prop prop_val 0 objs)"

text \<open>The number of list and dict nodes and items of a document; the engine's recursion
  descends along it.\<close>

fun jsize :: "json \<Rightarrow> nat"
  and jsizes :: "json list \<Rightarrow> nat"
  and jsize_items :: "(string \<times> json) list \<Rightarrow> nat" where
  "jsize (JArray xs) = Suc (jsizes xs)"
| "jsize (JObject kvs) = Suc (jsize_items kvs)"
| "jsize JNull = 0"
| "jsize (JBool b) = 0"
| "jsize (JInt i) = 0"
| "jsize (JFloat f) = 0"
| "jsize (JString s) = 0"
| "jsizes [] = 0"
| "jsizes (x # xs) = Suc (jsize x + jsizes xs)"
| "jsize_items [] = 0"
| "jsize_items (kv # kvs) = Suc (jsize (snd kv) + jsize_items kvs)"

text \<open>
  The recursive engine.  The methods read \<^verbatim>\<open>self\<close> and mutate only \<^verbatim>\<open>self.diff_log\<close>,
  which is threaded through as \<open>dl\<close>.  Each \<^verbatim>\<open>for\<close> loop is a function over the items still
  to visit, each loop body a function that returns where the source says \<^verbatim>\<open>continue\<close>; a
  raised exception ends every enclosing loop.  The expected side arrives as the sequence its
  loop walks (\<^verbatim>\<open>exp_data.items()\<close>, \<^verbatim>\<open>enumerate(exp_data)\<close>); the actual side is used as it
  is, through \<^verbatim>\<open>in\<close>, \<^verbatim>\<open>len\<close> and subscripts.

  The interpreter's recursion limit is not part of the model: these functions return for
  documents of any depth, where CPython, with its default limit of 1000 frames, raises
  \<^verbatim>\<open>RecursionError\<close> at about 500 nested arrays (two frames for each array, one for each
  object).  A statement about all documents therefore carries a bound on their nesting.
\<close>

function (sequential) compare_dicts ::
    "JSONComparator \<Rightarrow> string \<Rightarrow> (string \<times> json) list \<Rightarrow> json \<Rightarrow> LogProcessor \<Rightarrow> error + LogProcessor"
  and compare_dicts_body ::
    "JSONComparator \<Rightarrow> string \<Rightarrow> string \<Rightarrow> json \<Rightarrow> json \<Rightarrow> LogProcessor \<Rightarrow> error + LogProcessor"
  and compare_lists ::
    "JSONComparator \<Rightarrow> string \<Rightarrow> json list \<Rightarrow> json \<Rightarrow> LogProcessor \<Rightarrow> error + LogProcessor"
  and compare_with_items_order_respect ::
    "JSONComparator \<Rightarrow> string \<Rightarrow> json list \<Rightarrow> json \<Rightarrow> LogProcessor \<Rightarrow> error + LogProcessor"
  and items_order_loop ::
    "JSONComparator \<Rightarrow> string \<Rightarrow> nat \<Rightarrow> json list \<Rightarrow> json \<Rightarrow> nat \<Rightarrow> LogProcessor \<Rightarrow> error + LogProcessor"
  and items_order_body ::
    "JSONComparator \<Rightarrow> string \<Rightarrow> nat \<Rightarrow> json \<Rightarrow> json \<Rightarrow> nat \<Rightarrow> LogProcessor \<Rightarrow> error + LogProcessor"
  and compare_with_nested_obj_prop_respect ::
    "JSONComparator \<Rightarrow> string \<Rightarrow> json list \<Rightarrow> json \<Rightarrow> LogProcessor \<Rightarrow> error + LogProcessor"
  and nested_obj_prop_loop ::
    "JSONComparator \<Rightarrow> string \<Rightarrow> nat \<Rightarrow> json list \<Rightarrow> json \<Rightarrow> LogProcessor \<Rightarrow> error + LogProcessor"
  and nested_obj_prop_body ::
    "JSONComparator \<Rightarrow> string \<Rightarrow> nat \<Rightarrow> json \<Rightarrow> json \<Rightarrow> LogProcessor \<Rightarrow> error + LogProcessor"
  where
  "compare_dicts self item_path [] act_data dl = Inr dl"
| "compare_dicts self item_path (kv # rest) act_data dl =
     (case compare_dicts_body self item_path (fst kv) (snd kv) act_data dl of
        Inl e \<Rightarrow> Inl e
      | Inr dl' \<Rightarrow> compare_dicts self item_path rest act_data dl')"
| "compare_dicts_body self item_path key val act_data dl =
     (let dl1 = setup_path dl item_path key in
      case py_contains act_data key of
        Inl e \<Rightarrow> Inl e
      | Inr present \<Rightarrow>
          if \<not> present then Inr (missing_property dl1)
          else (case py_getitem act_data key of
                  Inl e \<Rightarrow> Inl e
                | Inr act \<Rightarrow>
                   (case val of
                      JObject kvs \<Rightarrow>
                        (case act of
                           JObject akvs \<Rightarrow> compare_dicts self (curr_path dl1) kvs act dl1
                         | _ \<Rightarrow> Inr (incorrect_type dl1 KObject act))
                    | JArray xs \<Rightarrow>
                        (case act of
                           JArray ys \<Rightarrow> compare_lists self (curr_path dl1) xs act dl1
                         | _ \<Rightarrow> Inr (incorrect_type dl1 KArray act))
                    | _ \<Rightarrow>
                        if py_ne val act \<and> \<not> key_to_ignore self dl1
                        then Inr (unequal_values dl1 val act)
                        else Inr dl1)))"
| "compare_lists self item_path exp_data act_data dl =
     (if has_target_key_path self
      then compare_with_nested_obj_prop_respect self item_path exp_data act_data dl
      else compare_with_items_order_respect self item_path exp_data act_data dl)"
| "compare_with_items_order_respect self item_path exp_data act_data dl =
     (case py_len act_data of
        Inl e \<Rightarrow> Inl e
      | Inr act_data_len \<Rightarrow>
          items_order_loop self item_path 0 exp_data act_data act_data_len
            (check_array_lengths dl item_path (length exp_data) act_data_len))"
| "items_order_loop self item_path idx [] act_data act_data_len dl = Inr dl"
| "items_order_loop self item_path idx (val # rest) act_data act_data_len dl =
     (case items_order_body self item_path idx val act_data act_data_len dl of
        Inl e \<Rightarrow> Inl e
      | Inr dl' \<Rightarrow> items_order_loop self item_path (Suc idx) rest act_data act_data_len dl')"
| "items_order_body self item_path idx val act_data act_data_len dl =
     (let dl1 = setup_path dl item_path (''<array>['' @ str_nat idx @ '']'') in
      if idx = act_data_len then Inr (missing_array_item dl1 val None)
      else (case py_index act_data idx of
              Inl e \<Rightarrow> Inl e
            | Inr act \<Rightarrow>
               (case val of
                  JObject kvs \<Rightarrow>
                    (case act of
                       JObject akvs \<Rightarrow> compare_dicts self (curr_path dl1) kvs act dl1
                     | _ \<Rightarrow> Inr (incorrect_type dl1 KObject act))
                | JArray xs \<Rightarrow>
                    (case act of
                       JArray ys \<Rightarrow> compare_lists self (curr_path dl1) xs act dl1
                     | _ \<Rightarrow> Inr (incorrect_type dl1 KArray act))
                | _ \<Rightarrow>
                    if py_ne val act then Inr (unequal_values dl1 val act) else Inr dl1)))"
| "compare_with_nested_obj_prop_respect self item_path exp_data act_data dl =
     (case py_len act_data of
        Inl e \<Rightarrow> Inl e
      | Inr act_data_len \<Rightarrow>
          nested_obj_prop_loop self item_path 0 exp_data act_data
            (check_array_lengths dl item_path (length exp_data) act_data_len))"
| "nested_obj_prop_loop self item_path idx [] act_data dl = Inr dl"
| "nested_obj_prop_loop self item_path idx (val # rest) act_data dl =
     (case nested_obj_prop_body self item_path idx val act_data dl of
        Inl e \<Rightarrow> Inl e
      | Inr dl' \<Rightarrow> nested_obj_prop_loop self item_path (Suc idx) rest act_data dl')"
| "nested_obj_prop_body self item_path idx val act_data dl =
     (let dl1 = setup_path dl item_path (''<array['' @ str_nat idx @ '']>'') in
      case val of
        JObject kvs \<Rightarrow>
          (case get_target_prop_value self dl1 kvs of
             Inl e \<Rightarrow> Inl e
           | Inr tp \<Rightarrow>
              (case get_idx_of_similar_row (fst tp) (snd tp) act_data of
                 Inl e \<Rightarrow> Inl e
               | Inr None \<Rightarrow> Inr (missing_array_item dl1 (snd tp) (Some (fst tp)))
               | Inr (Some act_data_similar_idx) \<Rightarrow>
                  (case py_index act_data act_data_similar_idx of
                     Inl e \<Rightarrow> Inl e
                   | Inr act \<Rightarrow> compare_dicts self (curr_path dl1) kvs act dl1)))
      | JArray xs \<Rightarrow>
          (case py_index act_data idx of
             Inl e \<Rightarrow> Inl e
           | Inr act \<Rightarrow>
              (case act of
                 JArray ys \<Rightarrow> compare_lists self (curr_path dl1) xs act dl1
               | _ \<Rightarrow> Inr (incorrect_type dl1 KArray act)))
      | _ \<Rightarrow>
          (case py_index act_data idx of
             Inl e \<Rightarrow> Inl e
           | Inr act \<Rightarrow>
              if py_ne val act then Inr (unequal_values dl1 val act) else Inr dl1))"
  by pat_completeness auto
termination compare_dicts
  apply (relation "measure (\<lambda>x. case x of
      Inl a \<Rightarrow> (case a of
          Inl b \<Rightarrow> (case b of
              Inl (self, p, kvs, act, dl) \<Rightarrow> 3 * jsize_items kvs
            | Inr (self, p, k, val, act, dl) \<Rightarrow> 3 * jsize val)
        | Inr b \<Rightarrow> (case b of
              Inl (self, p, xs, act, dl) \<Rightarrow> 3 * jsizes xs + 2
            | Inr (self, p, xs, act, dl) \<Rightarrow> 3 * jsizes xs + 1))
    | Inr a \<Rightarrow> (case a of
          Inl b \<Rightarrow> (case b of
              Inl (self, p, i, xs, act, n, dl) \<Rightarrow> 3 * jsizes xs
            | Inr (self, p, i, val, act, n, dl) \<Rightarrow> 3 * jsize val)
        | Inr b \<Rightarrow> (case b of
              Inl (self, p, xs, act, dl) \<Rightarrow> 3 * jsizes xs + 1
            | Inr c \<Rightarrow> (case c of
                  Inl (self, p, i, xs, act, dl) \<Rightarrow> 3 * jsizes xs
                | Inr (self, p, i, val, act, dl) \<Rightarrow> 3 * jsize val))))")
                  apply (rule wf_measure)
  apply (simp_all only: in_measure sum.case prod.case jsize.simps jsizes.simps jsize_items.simps)
  apply arith+
  done

text \<open>
  \<^verbatim>\<open>__compare\<close>.  The \<^verbatim>\<open>match\<close> inspects \<^verbatim>\<open>self.left_data\<close> in both directions; the bare
  \<^verbatim>\<open>raise\<close> of the last case has no active exception and gives a \<^verbatim>\<open>RuntimeError\<close>.
  \<^verbatim>\<open>_compare_dicts\<close> starts with \<^verbatim>\<open>exp_data.items()\<close> and the list strategies with
  \<^verbatim>\<open>len(exp_data)\<close>, which is where an expected document of another shape fails.
\<close>

definition compare :: "JSONComparator \<Rightarrow> bool \<Rightarrow> error + JSONComparator" where
  "compare self with_actual =
     (let data1 = (if with_actual then left_data self else right_data self);
          data2 = (if with_actual then right_data self else left_data self);
          root_log = (if with_actual then ''RIGHT'' else ''LEFT'')
      in case left_data self of
           JObject kvs \<Rightarrow>
             (case py_items data1 of
                Inl e \<Rightarrow> Inl e
              | Inr exp_items \<Rightarrow>
                 (case compare_dicts self root_log exp_items data2 (diff_log self) of
                    Inl e \<Rightarrow> Inl e
                  | Inr dl \<Rightarrow> Inr (self\<lparr>diff_log := dl\<rparr>)))
         | JArray xs \<Rightarrow>
             (case py_seq data1 of
                Inl e \<Rightarrow> Inl e
              | Inr exp_vals \<Rightarrow>
                 (case compare_lists self root_log exp_vals data2 (diff_log self) of
                    Inl e \<Rightarrow> Inl e
                  | Inr dl \<Rightarrow> Inr (self\<lparr>diff_log := dl\<rparr>)))
         | _ \<Rightarrow> Inl RuntimeError)"

text \<open>\<^verbatim>\<open>self.diff_log.log.clear()\<close>.\<close>

definition clear_log :: "JSONComparator \<Rightarrow> JSONComparator" where
  "clear_log self = self\<lparr>diff_log := (diff_log self)\<lparr>log_lines := []\<rparr>\<rparr>"

definition compare_with_right :: "JSONComparator \<Rightarrow> error + JSONComparator" where
  "compare_with_right self =
     (case compare (edit_target_prop_path_root (clear_log self) ''DATA'' ''RIGHT'') True of
        Inl e \<Rightarrow> Inl e
      | Inr s \<Rightarrow> Inr (edit_target_prop_path_root s ''RIGHT'' ''DATA''))"

definition compare_with_left :: "JSONComparator \<Rightarrow> error + JSONComparator" where
  "compare_with_left self =
     (case compare (edit_target_prop_path_root (clear_log self) ''DATA'' ''LEFT'') False of
        Inl e \<Rightarrow> Inl e
      | Inr s \<Rightarrow> Inr (edit_target_prop_path_root s ''LEFT'' ''DATA''))"

definition full_compare :: "JSONComparator \<Rightarrow> error + JSONComparator" where
  "full_compare self =
     (case compare (edit_target_prop_path_root (clear_log self) ''DATA'' ''RIGHT'') True of
        Inl e \<Rightarrow> Inl e
      | Inr s \<Rightarrow>
         (case compare (edit_target_prop_path_root s ''RIGHT'' ''LEFT'') False of
            Inl e \<Rightarrow> Inl e
          | Inr s' \<Rightarrow> Inr (edit_target_prop_path_root s' ''LEFT'' ''DATA'')))"

text \<open>What a caller observes after an operation: the log, and the configured path.\<close>

definition log_of :: "error + JSONComparator \<Rightarrow> error + diff_entry list" where
  "log_of r = map_sum id (\<lambda>s. log_lines (diff_log s)) r"

definition target_of :: "error + JSONComparator \<Rightarrow> error + string" where
  "target_of r = map_sum id target_property r"

text \<open>\<^verbatim>\<open>type(val) is dict\<close> and \<^verbatim>\<open>type(val) is list\<close>; on the values \<^verbatim>\<open>json.load\<close> returns
  they agree with \<^verbatim>\<open>isinstance\<close>.\<close>

fun is_dict :: "json \<Rightarrow> bool" where
  "is_dict (JObject kvs) = True"
| "is_dict _ = False"

fun is_list :: "json \<Rightarrow> bool" where
  "is_list (JArray xs) = True"
| "is_list _ = False"

text \<open>The JSON type of a value, as the data model of the specification names it: Python's
  \<^verbatim>\<open>int\<close> and \<^verbatim>\<open>float\<close> are both numbers.\<close>

datatype json_type = TNull | TBool | TNumber | TString | TArray | TObject

fun type_of_json :: "json \<Rightarrow> json_type" where
  "type_of_json JNull = TNull"
| "type_of_json (JBool b) = TBool"
| "type_of_json (JInt i) = TNumber"
| "type_of_json (JFloat f) = TNumber"
| "type_of_json (JString s) = TString"
| "type_of_json (JArray xs) = TArray"
| "type_of_json (JObject kvs) = TObject"

text \<open>How deep the arrays and objects of a document are nested: 0 for a scalar, 1 for an
  array or object of scalars.\<close>

fun nesting :: "json \<Rightarrow> nat"
  and nestings :: "json list \<Rightarrow> nat"
  and nesting_items :: "(string \<times> json) list \<Rightarrow> nat" where
  "nesting (JArray xs) = Suc (nestings xs)"
| "nesting (JObject kvs) = Suc (nesting_items kvs)"
| "nesting JNull = 0"
| "nesting (JBool b) = 0"
| "nesting (JInt i) = 0"
| "nesting (JFloat f) = 0"
| "nesting (JString s) = 0"
| "nestings [] = 0"
| "nestings (x # xs) = max (nesting x) (nestings xs)"
| "nesting_items [] = 0"
| "nesting_items (kv # kvs) = max (nesting (snd kv)) (nesting_items kvs)"

text \<open>A run that returns normally and leaves the log as it found it.\<close>

definition keeps_log :: "LogProcessor \<Rightarrow> error + LogProcessor \<Rightarrow> bool" where
  "keeps_log dl r = (case r of Inl e \<Rightarrow> False | Inr dl' \<Rightarrow> log_lines dl' = log_lines dl)"

text \<open>One step of the object loop, and of the positional loop, over a value that is its own
  counterpart leaves the log as it found it.\<close>

definition same_dict_step :: "json \<Rightarrow> bool" where
  "same_dict_step v = (\<forall>self p key akvs dl. \<not> has_target_key_path self \<longrightarrow>
      map_of akvs key = Some v \<longrightarrow>
      keeps_log dl (compare_dicts_body self p key v (JObject akvs) dl))"

definition same_list_step :: "json \<Rightarrow> bool" where
  "same_list_step v = (\<forall>self p idx avs dl. \<not> has_target_key_path self \<longrightarrow>
      idx < length avs \<longrightarrow> avs ! idx = v \<longrightarrow>
      keeps_log dl (items_order_body self p idx v (JArray avs) (length avs) dl))"

section \<open>Behaviour at concrete documents\<close>

text \<open>
  C1 (keyed strategy whenever a target property is configured).  The strategy is chosen by
  \<^verbatim>\<open>hasattr(self, "target_key_path")\<close>, an attribute the constructor does not create, so the
  documented target property never selects it.  On the example of the claim, with the target
  property \<^verbatim>\<open>DATA.<array>.id\<close>, the positional strategy runs and reports four unequal values
  instead of one.
\<close>

theorem C1_target_property_example_runs_positionally:
  "log_of (compare_with_right (JSONComparator_init
      (JArray [JObject [(''id'', JInt 1), (''v'', JString ''a'')],
               JObject [(''id'', JInt 2), (''v'', JString ''b'')]])
      (JArray [JObject [(''id'', JInt 2), (''v'', JString ''b'')],
               JObject [(''id'', JInt 1), (''v'', JString ''x'')]])
      (Some ''DATA.<array>.id'') None))
   = Inr [UnequalValues ''RIGHT.<array>[0].id'' (JInt 1) (JInt 2),
          UnequalValues ''RIGHT.<array>[0].v'' (JString ''a'') (JString ''b''),
          UnequalValues ''RIGHT.<array>[1].id'' (JInt 2) (JInt 1),
          UnequalValues ''RIGHT.<array>[1].v'' (JString ''b'') (JString ''x'')]"
  by code_simp

text \<open>
  C2 (one missing-item entry for every expected index beyond the actual array).  The loop tests
  \<^verbatim>\<open>idx == act_data_len\<close>: the first index beyond the actual array is recorded, the second
  one subscripts the actual array and raises \<^verbatim>\<open>IndexError\<close>.  Expected length 2 against
  actual length 1 completes; expected length 3 against actual length 1 does not.
\<close>

theorem C2_second_missing_index_raises:
  "log_of (compare_with_right (JSONComparator_init
      (JArray [JInt 1, JInt 2]) (JArray [JInt 1]) None None))
   = Inr [LackOfArrayItems ''RIGHT.<array>'' 2 1,
          MissingArrayItem ''RIGHT.<array>[1]'' (JInt 2) None]
   \<and> compare_with_right (JSONComparator_init
      (JArray [JInt 1, JInt 2, JInt 3]) (JArray [JInt 1]) None None)
   = Inl IndexError"
  by code_simp

text \<open>
  C3 (dispatch on the expected document's root).  \<^verbatim>\<open>__compare\<close> matches on
  \<^verbatim>\<open>self.left_data\<close> also when the right document is the expected one.  With an empty array
  on the left and the object \<^verbatim>\<open>{"a": 1}\<close> on the right, \<^verbatim>\<open>compare_with_left\<close> runs the array
  comparison over the expected object and returns normally; with an empty object on the left
  and an empty array on the right it runs the object comparison over the expected array and
  fails in \<^verbatim>\<open>exp_data.items()\<close>.
\<close>

theorem C3_dispatch_follows_left_document:
  "log_of (compare_with_left (JSONComparator_init
      (JArray []) (JObject [(''a'', JInt 1)]) None None))
   = Inr [LackOfArrayItems ''LEFT.<array>'' 1 0,
          MissingArrayItem ''LEFT.<array>[0]'' (JString ''a'') None]
   \<and> compare_with_left (JSONComparator_init (JObject []) (JArray []) None None)
   = Inl AttributeError"
  by code_simp

section \<open>One step of the object loop and of the positional loop\<close>

lemma compare_dicts_body_leaf:
  "\<not> is_dict val \<Longrightarrow> \<not> is_list val \<Longrightarrow> map_of akvs key = Some act \<Longrightarrow>
     compare_dicts_body self p key val (JObject akvs) dl =
       Inr (if py_ne val act \<and> \<not> key_to_ignore self (setup_path dl p key)
            then unequal_values (setup_path dl p key) val act else setup_path dl p key)"
  by (cases val) (simp_all add: Let_def)

lemma compare_dicts_body_missing:
  "map_of akvs key = None \<Longrightarrow>
     compare_dicts_body self p key val (JObject akvs) dl =
       Inr (missing_property (setup_path dl p key))"
  by (simp add: Let_def)

lemma compare_dicts_body_not_dict:
  "is_dict val \<Longrightarrow> \<not> is_dict act \<Longrightarrow> map_of akvs key = Some act \<Longrightarrow>
     compare_dicts_body self p key val (JObject akvs) dl =
       Inr (incorrect_type (setup_path dl p key) KObject act)"
  by (cases val; cases act) (simp_all add: Let_def)

lemma compare_dicts_body_not_list:
  "is_list val \<Longrightarrow> \<not> is_list act \<Longrightarrow> map_of akvs key = Some act \<Longrightarrow>
     compare_dicts_body self p key val (JObject akvs) dl =
       Inr (incorrect_type (setup_path dl p key) KArray act)"
  by (cases val; cases act) (simp_all add: Let_def)

lemma items_order_body_leaf:
  "\<not> is_dict val \<Longrightarrow> \<not> is_list val \<Longrightarrow> idx < length avs \<Longrightarrow>
     items_order_body self p idx val (JArray avs) (length avs) dl =
       Inr (if py_ne val (avs ! idx)
            then unequal_values (setup_path dl p (''<array>['' @ str_nat idx @ '']'')) val (avs ! idx)
            else setup_path dl p (''<array>['' @ str_nat idx @ '']''))"
  by (cases val) (simp_all add: Let_def)

text \<open>
  C4 (a mismatch is suppressed exactly when the path, with the index brackets stripped and the
  root label normalised to \<^verbatim>\<open>DATA\<close>, is a member of the ignore set).  \<^verbatim>\<open>__key_to_ignore\<close>
  tests membership of a path that its two rewriting steps have damaged.  The pattern removes
  everything from the first \<^verbatim>\<open>[\<close> to the last \<^verbatim>\<open>]\<close>: for a leaf under two arrays the
  entry \<^verbatim>\<open>DATA.a.<array>.b.<array>.c\<close> does not suppress its mismatch, while the entry
  \<^verbatim>\<open>DATA.a.<array>.c\<close>, the path of another property, does.  \<^verbatim>\<open>str.replace\<close> rewrites
  \<^verbatim>\<open>RIGHT\<close> and \<^verbatim>\<open>LEFT\<close> inside property names: the entry \<^verbatim>\<open>DATA.COPYRIGHT\<close> does not
  suppress the mismatch at that property, the entry \<^verbatim>\<open>DATA.COPYDATA\<close> does.  Under a single
  array the membership test works as described, a sibling is still reported, and a missing
  property, a type mismatch and a mismatch met by the positional loop are reported whatever
  the ignore set holds.
\<close>

theorem C4_ignore_membership_uses_damaged_path:
  "log_of (compare_with_left (JSONComparator_init
        (JObject [(''a'', JArray [JObject [(''b'', JArray [JObject [(''c'', JInt 1)]])]])])
        (JObject [(''a'', JArray [JObject [(''b'', JArray [JObject [(''c'', JInt 2)]])]])])
        None (Some [''DATA.a.<array>.b.<array>.c''])))
      = Inr [UnequalValues ''LEFT.a.<array>[0].b.<array>[0].c'' (JInt 2) (JInt 1)]
   \<and> log_of (compare_with_left (JSONComparator_init
        (JObject [(''a'', JArray [JObject [(''b'', JArray [JObject [(''c'', JInt 1)]])]])])
        (JObject [(''a'', JArray [JObject [(''b'', JArray [JObject [(''c'', JInt 2)]])]])])
        None (Some [''DATA.a.<array>.c''])))
      = Inr []
   \<and> log_of (compare_with_right (JSONComparator_init
        (JObject [(''COPYRIGHT'', JInt 1)]) (JObject [(''COPYRIGHT'', JInt 2)])
        None (Some [''DATA.COPYRIGHT''])))
      = Inr [UnequalValues ''RIGHT.COPYRIGHT'' (JInt 1) (JInt 2)]
   \<and> log_of (compare_with_right (JSONComparator_init
        (JObject [(''COPYRIGHT'', JInt 1)]) (JObject [(''COPYRIGHT'', JInt 2)])
        None (Some [''DATA.COPYDATA''])))
      = Inr []
   \<and> log_of (compare_with_left (JSONComparator_init
        (JObject [(''a'', JArray [JObject [(''c'', JInt 1)]])])
        (JObject [(''a'', JArray [JObject [(''c'', JInt 2)]])])
        None (Some [''DATA.a.<array>.c''])))
      = Inr []
   \<and> log_of (compare_with_left (JSONComparator_init
        (JObject [(''a'', JArray [JObject [(''c'', JInt 1), (''d'', JInt 1)]])])
        (JObject [(''a'', JArray [JObject [(''c'', JInt 2), (''d'', JInt 2)]])])
        None (Some [''DATA.a.<array>.c''])))
      = Inr [UnequalValues ''LEFT.a.<array>[0].d'' (JInt 2) (JInt 1)]
   \<and> log_of (compare_with_right (JSONComparator_init
        (JObject [(''a'', JInt 1)]) (JObject [])
        None (Some [''DATA.a''])))
      = Inr [MissingProperty ''RIGHT.a'']
   \<and> log_of (compare_with_right (JSONComparator_init
        (JObject [(''a'', JObject [])]) (JObject [(''a'', JInt 1)])
        None (Some [''DATA.a''])))
      = Inr [IncorrectType ''RIGHT.a'' KObject (JInt 1)]
   \<and> log_of (compare_with_right (JSONComparator_init
        (JObject [(''a'', JArray [JInt 1])]) (JObject [(''a'', JArray [JInt 2])])
        None (Some [''DATA.a.<array>''])))
      = Inr [UnequalValues ''RIGHT.a.<array>[0]'' (JInt 1) (JInt 2)]"
  by code_simp

section \<open>Equality of scalar leaves\<close>

lemma py_ne_string_or_null:
  "\<not> is_dict val \<Longrightarrow> \<not> is_list val \<Longrightarrow> type_of_json val \<noteq> type_of_json act \<Longrightarrow>
   type_of_json val \<in> {TString, TNull} \<or> type_of_json act \<in> {TString, TNull} \<Longrightarrow> py_ne val act"
  by (cases val; cases act) (auto simp: py_ne_def)

lemma py_ne_bool_int: "py_ne (JBool b) (JInt i) = (i \<noteq> (if b then 1 else 0))"
  by (auto simp: py_ne_def)

lemma py_ne_int_bool: "py_ne (JInt i) (JBool b) = (i \<noteq> (if b then 1 else 0))"
  by (auto simp: py_ne_def)

lemma py_ne_bool_float: "py_ne (JBool b) (JFloat f) = (f \<noteq> Finite (if b then 1 else 0))"
  by (cases f) (auto simp: py_ne_def)

lemma py_ne_float_bool: "py_ne (JFloat f) (JBool b) = (f \<noteq> Finite (if b then 1 else 0))"
  by (cases f) (auto simp: py_ne_def)

lemma scalar_leaf_steps:
  "(\<not> is_dict val \<and> \<not> is_list val \<and> type_of_json val \<noteq> type_of_json act
      \<and> (type_of_json val \<in> {TString, TNull} \<or> type_of_json act \<in> {TString, TNull}) \<longrightarrow>
      py_ne val act
      \<and> (map_of akvs key = Some act \<longrightarrow>
           compare_dicts_body self p key val (JObject akvs) dl =
             Inr (if key_to_ignore self (setup_path dl p key) then setup_path dl p key
                  else unequal_values (setup_path dl p key) val act))
      \<and> (idx < length avs \<and> avs ! idx = act \<longrightarrow>
           items_order_body self p idx val (JArray avs) (length avs) dl =
             Inr (unequal_values (setup_path dl p (''<array>['' @ str_nat idx @ '']'')) val act)))
   \<and> py_ne (JBool b) (JInt i) = (i \<noteq> (if b then 1 else 0))
   \<and> py_ne (JInt i) (JBool b) = (i \<noteq> (if b then 1 else 0))
   \<and> py_ne (JBool b) (JFloat f) = (f \<noteq> Finite (if b then 1 else 0))
   \<and> py_ne (JFloat f) (JBool b) = (f \<noteq> Finite (if b then 1 else 0))
   \<and> (map_of akvs key = Some (JInt i) \<longrightarrow>
        compare_dicts_body self p key (JBool b) (JObject akvs) dl =
          Inr (if i \<noteq> (if b then 1 else 0) \<and> \<not> key_to_ignore self (setup_path dl p key)
               then unequal_values (setup_path dl p key) (JBool b) (JInt i)
               else setup_path dl p key))
   \<and> (idx < length avs \<and> avs ! idx = JInt i \<longrightarrow>
        items_order_body self p idx (JBool b) (JArray avs) (length avs) dl =
          Inr (if i \<noteq> (if b then 1 else 0)
               then unequal_values (setup_path dl p (''<array>['' @ str_nat idx @ '']'')) (JBool b) (JInt i)
               else setup_path dl p (''<array>['' @ str_nat idx @ '']'')))"
  apply (intro conjI impI; (elim conjE)?)
  subgoal by (rule py_ne_string_or_null)
  subgoal using compare_dicts_body_leaf [of val akvs key act self p dl]
      py_ne_string_or_null [of val act] by presburger
  subgoal using items_order_body_leaf [of val idx avs self p dl]
      py_ne_string_or_null [of val act] by presburger
  subgoal by (rule py_ne_bool_int)
  subgoal by (rule py_ne_int_bool)
  subgoal by (rule py_ne_bool_float)
  subgoal by (rule py_ne_float_bool)
  subgoal using compare_dicts_body_leaf [of "JBool b" akvs key "JInt i" self p dl]
    by (simp only: py_ne_bool_int is_dict.simps is_list.simps not_False_eq_True)
  subgoal using items_order_body_leaf [of "JBool b" idx avs self p dl]
    by (simp only: py_ne_bool_int is_dict.simps is_list.simps not_False_eq_True)
  done

lemma py_ne_int_int: "py_ne (JInt m) (JInt n) = (m \<noteq> n)"
  by (simp add: py_ne_def)

lemma py_ne_int_float: "py_ne (JInt m) (JFloat x) = (x \<noteq> Finite (of_int m))"
  by (cases x) (auto simp: py_ne_def)

lemma py_ne_float_int: "py_ne (JFloat x) (JInt m) = (x \<noteq> Finite (of_int m))"
  by (cases x) (auto simp: py_ne_def)

lemma py_ne_float_float: "py_ne (JFloat x) (JFloat y) = (x \<noteq> y \<or> x = NaN)"
  by (cases x; cases y) (simp_all add: py_ne_def)

lemma py_ne_bool_bool: "py_ne (JBool c) (JBool d) = (c \<noteq> d)"
  by (cases c; cases d) (simp_all add: py_ne_def)

lemma py_ne_string_string: "py_ne (JString s) (JString t) = (s \<noteq> t)"
  by (auto simp: py_ne_def)

lemma py_ne_null: "py_ne JNull w = (w \<noteq> JNull)"
  by (simp add: py_ne_def)

lemma single_property_log:
  assumes "\<not> is_dict v" "\<not> is_list v"
  shows "log_of (compare_with_right (JSONComparator_init
            (JObject [(k, v)]) (JObject [(k, w)]) tp None))
         = Inr (if py_ne v w then [UnequalValues (''RIGHT.'' @ k) v w] else [])"
proof -
  let ?S = "edit_target_prop_path_root
      (clear_log (JSONComparator_init (JObject [(k, v)]) (JObject [(k, w)]) tp None))
      ''DATA'' ''RIGHT''"
  have f: "left_data ?S = JObject [(k, v)]" "right_data ?S = JObject [(k, w)]"
    "diff_log ?S = \<lparr>log_lines = [], curr_path = []\<rparr>" "properties_to_ignore ?S = []"
    by (simp_all add: edit_target_prop_path_root_def clear_log_def JSONComparator_init_def
        LogProcessor_init_def)
  have ni: "\<not> key_to_ignore ?S dl" for dl
    by (simp add: key_to_ignore_def f)
  have b: "compare_dicts_body ?S ''RIGHT'' k v (JObject [(k, w)]) dl =
       Inr (if py_ne v w then unequal_values (setup_path dl ''RIGHT'' k) v w
            else setup_path dl ''RIGHT'' k)" for dl
    using compare_dicts_body_leaf [OF assms, of "[(k, w)]" k w ?S "''RIGHT''" dl] ni
    by simp
  have c: "compare_dicts ?S ''RIGHT'' [(k, v)] (JObject [(k, w)]) dl =
       Inr (if py_ne v w then unequal_values (setup_path dl ''RIGHT'' k) v w
            else setup_path dl ''RIGHT'' k)" for dl
    by (simp add: b del: compare_dicts_body.simps)
  have d: "compare ?S True =
       Inr (?S\<lparr>diff_log := (if py_ne v w
              then unequal_values (setup_path (diff_log ?S) ''RIGHT'' k) v w
              else setup_path (diff_log ?S) ''RIGHT'' k)\<rparr>)"
    unfolding compare_def Let_def f(1,2) by (simp add: c del: compare_dicts.simps)
  show ?thesis
    unfolding compare_with_right_def d
    by (simp add: log_of_def edit_target_prop_path_root_def clear_log_def
        JSONComparator_init_def LogProcessor_init_def unequal_values_def setup_path_def)
qed

lemma str_nat_0: "str_nat 0 = ''0''"
  by code_simp

lemma single_item_log:
  assumes "\<not> is_dict v" "\<not> is_list v"
  shows "log_of (compare_with_right (JSONComparator_init (JArray [v]) (JArray [w]) tp None))
         = Inr (if py_ne v w then [UnequalValues ''RIGHT.<array>[0]'' v w] else [])"
proof -
  let ?S = "edit_target_prop_path_root
      (clear_log (JSONComparator_init (JArray [v]) (JArray [w]) tp None)) ''DATA'' ''RIGHT''"
  have f: "left_data ?S = JArray [v]" "right_data ?S = JArray [w]"
    "diff_log ?S = \<lparr>log_lines = [], curr_path = []\<rparr>" "\<not> has_target_key_path ?S"
    by (simp_all add: edit_target_prop_path_root_def clear_log_def JSONComparator_init_def
        LogProcessor_init_def)
  have b: "items_order_body ?S ''RIGHT'' 0 v (JArray [w]) (Suc 0) dl =
       Inr (if py_ne v w then unequal_values (setup_path dl ''RIGHT'' ''<array>[0]'') v w
            else setup_path dl ''RIGHT'' ''<array>[0]'')" for dl
    using items_order_body_leaf [OF assms, of 0 "[w]" ?S "''RIGHT''" dl]
    by (simp add: str_nat_0)
  have l: "items_order_loop ?S ''RIGHT'' 0 [v] (JArray [w]) (Suc 0) dl =
       Inr (if py_ne v w then unequal_values (setup_path dl ''RIGHT'' ''<array>[0]'') v w
            else setup_path dl ''RIGHT'' ''<array>[0]'')" for dl
    by (simp add: b del: items_order_body.simps)
  have c: "compare_lists ?S ''RIGHT'' [v] (JArray [w]) dl =
       Inr (if py_ne v w
            then unequal_values (setup_path (setup_path dl ''RIGHT'' ''<array>'') ''RIGHT'' ''<array>[0]'') v w
            else setup_path (setup_path dl ''RIGHT'' ''<array>'') ''RIGHT'' ''<array>[0]'')" for dl
    by (simp add: compare_lists.simps compare_with_items_order_respect.simps f(4)
        check_array_lengths_def Let_def l
        del: items_order_loop.simps)
  have d: "compare ?S True =
       Inr (?S\<lparr>diff_log := (if py_ne v w
            then unequal_values (setup_path (setup_path (diff_log ?S) ''RIGHT'' ''<array>'') ''RIGHT'' ''<array>[0]'') v w
            else setup_path (setup_path (diff_log ?S) ''RIGHT'' ''<array>'') ''RIGHT'' ''<array>[0]'')\<rparr>)"
    unfolding compare_def Let_def f(1,2) by (simp add: c del: compare_lists.simps)
  show ?thesis
    unfolding compare_with_right_def d
    by (simp add: log_of_def edit_target_prop_path_root_def clear_log_def
        JSONComparator_init_def LogProcessor_init_def unequal_values_def setup_path_def)
qed

text \<open>
  C9, as the code has it.  The leaf comparison is Python's \<^verbatim>\<open>!=\<close>, exact and without
  conversion of strings.  Two numbers are unequal exactly when their values differ, an integer
  and a float compared by value, and NaN unequal to everything, itself included; two strings
  or two booleans are unequal exactly when they differ; null is unequal to everything but null.  An
  object with one scalar property, or an array with one scalar item, compared against its
  like records one line exactly when the two leaves are unequal in this sense, and that line
  carries the path and both values.  Two scalar leaves of different JSON types one of which is a
  string or null are always unequal, and the mismatch is recorded (in the object loop unless
  the path is ignored).  A boolean, however, is an integer to Python: it is compared with a
  number by value, \<^verbatim>\<open>True\<close> as 1 and \<^verbatim>\<open>False\<close> as 0, and a mismatch is recorded only when
  the values differ.
\<close>

theorem C9_scalar_leaves_compared_by_exact_value:
  "py_ne (JInt m) (JInt n) = (m \<noteq> n)
   \<and> py_ne (JInt m) (JFloat x) = (x \<noteq> Finite (of_int m))
   \<and> py_ne (JFloat x) (JInt m) = (x \<noteq> Finite (of_int m))
   \<and> py_ne (JFloat x) (JFloat y) = (x \<noteq> y \<or> x = NaN)
   \<and> py_ne (JBool c) (JBool d) = (c \<noteq> d)
   \<and> py_ne (JString s) (JString t) = (s \<noteq> t)
   \<and> py_ne JNull w = (w \<noteq> JNull)
   \<and> (\<not> is_dict v \<and> \<not> is_list v \<longrightarrow>
        log_of (compare_with_right (JSONComparator_init
            (JObject [(k, v)]) (JObject [(k, w)]) tp None))
        = Inr (if py_ne v w then [UnequalValues (''RIGHT.'' @ k) v w] else []))
   \<and> (\<not> is_dict v \<and> \<not> is_list v \<longrightarrow>
        log_of (compare_with_right (JSONComparator_init (JArray [v]) (JArray [w]) tp None))
        = Inr (if py_ne v w then [UnequalValues ''RIGHT.<array>[0]'' v w] else []))
   \<and> (\<not> is_dict val \<and> \<not> is_list val \<and> type_of_json val \<noteq> type_of_json act
      \<and> (type_of_json val \<in> {TString, TNull} \<or> type_of_json act \<in> {TString, TNull}) \<longrightarrow>
      py_ne val act
      \<and> (map_of akvs key = Some act \<longrightarrow>
           compare_dicts_body self p key val (JObject akvs) dl =
             Inr (if key_to_ignore self (setup_path dl p key) then setup_path dl p key
                  else unequal_values (setup_path dl p key) val act))
      \<and> (idx < length avs \<and> avs ! idx = act \<longrightarrow>
           items_order_body self p idx val (JArray avs) (length avs) dl =
             Inr (unequal_values (setup_path dl p (''<array>['' @ str_nat idx @ '']'')) val act)))
   \<and> py_ne (JBool b) (JInt i) = (i \<noteq> (if b then 1 else 0))
   \<and> py_ne (JInt i) (JBool b) = (i \<noteq> (if b then 1 else 0))
   \<and> py_ne (JBool b) (JFloat f) = (f \<noteq> Finite (if b then 1 else 0))
   \<and> py_ne (JFloat f) (JBool b) = (f \<noteq> Finite (if b then 1 else 0))
   \<and> (map_of akvs key = Some (JInt i) \<longrightarrow>
        compare_dicts_body self p key (JBool b) (JObject akvs) dl =
          Inr (if i \<noteq> (if b then 1 else 0) \<and> \<not> key_to_ignore self (setup_path dl p key)
               then unequal_values (setup_path dl p key) (JBool b) (JInt i)
               else setup_path dl p key))
   \<and> (idx < length avs \<and> avs ! idx = JInt i \<longrightarrow>
        items_order_body self p idx (JBool b) (JArray avs) (length avs) dl =
          Inr (if i \<noteq> (if b then 1 else 0)
               then unequal_values (setup_path dl p (''<array>['' @ str_nat idx @ '']'')) (JBool b) (JInt i)
               else setup_path dl p (''<array>['' @ str_nat idx @ '']'')))"
  apply (rule conjI, rule py_ne_int_int)
  apply (rule conjI, rule py_ne_int_float)
  apply (rule conjI, rule py_ne_float_int)
  apply (rule conjI, rule py_ne_float_float)
  apply (rule conjI, rule py_ne_bool_bool)
  apply (rule conjI, rule py_ne_string_string)
  apply (rule conjI, rule py_ne_null)
  apply (rule conjI, rule impI, elim conjE, rule single_property_log, assumption, assumption)
  apply (rule conjI, rule impI, elim conjE, rule single_item_log, assumption, assumption)
  apply (rule scalar_leaf_steps)
  done

text \<open>C9 at concrete leaves: the string \<^verbatim>\<open>"1"\<close> against the number 1, \<^verbatim>\<open>true\<close> against 1
  and against 2, and the floats 0.5 and 1 in an object and in an array.\<close>

theorem C9_scalar_leaves_witness:
  "type_of_json (JString ''1'') \<noteq> type_of_json (JInt 1)
   \<and> py_ne (JString ''1'') (JInt 1)
   \<and> compare_dicts_body (JSONComparator_init (JObject []) (JObject []) None None)
        ''RIGHT'' ''a'' (JString ''1'') (JObject [(''a'', JInt 1)]) LogProcessor_init
      = Inr (unequal_values (setup_path LogProcessor_init ''RIGHT'' ''a'') (JString ''1'') (JInt 1))
   \<and> items_order_body (JSONComparator_init (JObject []) (JObject []) None None)
        ''RIGHT'' 0 (JString ''1'') (JArray [JInt 1]) (length [JInt 1]) LogProcessor_init
      = Inr (unequal_values (setup_path LogProcessor_init ''RIGHT'' (''<array>['' @ str_nat 0 @ '']''))
               (JString ''1'') (JInt 1))
   \<and> compare_dicts_body (JSONComparator_init (JObject []) (JObject []) None None)
        ''RIGHT'' ''a'' (JBool True) (JObject [(''a'', JInt 1)]) LogProcessor_init
      = Inr (setup_path LogProcessor_init ''RIGHT'' ''a'')
   \<and> compare_dicts_body (JSONComparator_init (JObject []) (JObject []) None None)
        ''RIGHT'' ''a'' (JBool True) (JObject [(''a'', JInt 2)]) LogProcessor_init
      = Inr (unequal_values (setup_path LogProcessor_init ''RIGHT'' ''a'') (JBool True) (JInt 2))
   \<and> \<not> is_dict (JFloat (Finite (1 / 2))) \<and> \<not> is_list (JFloat (Finite (1 / 2)))
   \<and> log_of (compare_with_right (JSONComparator_init
          (JObject [(''a'', JFloat (Finite (1 / 2)))]) (JObject [(''a'', JFloat (Finite 1))])
          None None))
      = Inr [UnequalValues ''RIGHT.a'' (JFloat (Finite (1 / 2))) (JFloat (Finite 1))]
   \<and> log_of (compare_with_right (JSONComparator_init
          (JArray [JFloat (Finite (1 / 2))]) (JArray [JFloat (Finite 1)]) None None))
      = Inr [UnequalValues ''RIGHT.<array>[0]'' (JFloat (Finite (1 / 2))) (JFloat (Finite 1))]"
proof -
  let ?S = "JSONComparator_init (JObject []) (JObject []) None None"
  have k: "\<not> key_to_ignore ?S (setup_path LogProcessor_init ''RIGHT'' ''a'')"
    by (simp add: key_to_ignore_def JSONComparator_init_def)
  have t: "type_of_json (JString ''1'') \<noteq> type_of_json (JInt 1)" by simp
  note w1 = C9_scalar_leaves_compared_by_exact_value
      [where val = "JString ''1''" and act = "JInt 1" and akvs = "[(''a'', JInt 1)]"
         and key = "''a''" and self = ?S and p = "''RIGHT''" and dl = LogProcessor_init
         and idx = 0 and avs = "[JInt 1]" and b = True and i = 1
         and x = "Finite (1 / 2)" and y = "Finite 1"
         and v = "JFloat (Finite (1 / 2))" and w = "JFloat (Finite 1)"
         and k = "''a''" and tp = None]
  note w2 = C9_scalar_leaves_compared_by_exact_value
      [where akvs = "[(''a'', JInt 2)]"
         and key = "''a''" and self = ?S and p = "''RIGHT''" and dl = LogProcessor_init
         and b = True and i = 2]
  have a: "py_ne (JString ''1'') (JInt 1)" using w1 by simp
  have b: "compare_dicts_body ?S ''RIGHT'' ''a'' (JString ''1'') (JObject [(''a'', JInt 1)]) LogProcessor_init
      = Inr (unequal_values (setup_path LogProcessor_init ''RIGHT'' ''a'') (JString ''1'') (JInt 1))"
    using w1 k by simp
  have c: "items_order_body ?S ''RIGHT'' 0 (JString ''1'') (JArray [JInt 1]) (length [JInt 1]) LogProcessor_init
      = Inr (unequal_values (setup_path LogProcessor_init ''RIGHT'' (''<array>['' @ str_nat 0 @ '']''))
               (JString ''1'') (JInt 1))"
    using w1 by simp
  have d: "compare_dicts_body ?S ''RIGHT'' ''a'' (JBool True) (JObject [(''a'', JInt 1)]) LogProcessor_init
      = Inr (setup_path LogProcessor_init ''RIGHT'' ''a'')"
    using w1 by simp
  have e: "compare_dicts_body ?S ''RIGHT'' ''a'' (JBool True) (JObject [(''a'', JInt 2)]) LogProcessor_init
      = Inr (unequal_values (setup_path LogProcessor_init ''RIGHT'' ''a'') (JBool True) (JInt 2))"
    using w2 k by simp
  have n: "py_ne (JFloat (Finite (1 / 2))) (JFloat (Finite 1))"
    by (simp add: py_ne_float_float)
  have s: "\<not> is_dict (JFloat (Finite (1 / 2)))" "\<not> is_list (JFloat (Finite (1 / 2)))"
    by simp_all
  have w1a: "log_of (compare_with_right (JSONComparator_init
          (JObject [(''a'', JFloat (Finite (1 / 2)))]) (JObject [(''a'', JFloat (Finite 1))])
          None None))
      = Inr (if py_ne (JFloat (Finite (1 / 2))) (JFloat (Finite 1))
          then [UnequalValues (''RIGHT.'' @ ''a'') (JFloat (Finite (1 / 2))) (JFloat (Finite 1))]
          else [])"
    using w1 s by blast
  have w1b: "log_of (compare_with_right (JSONComparator_init
          (JArray [JFloat (Finite (1 / 2))]) (JArray [JFloat (Finite 1)]) None None))
      = Inr (if py_ne (JFloat (Finite (1 / 2))) (JFloat (Finite 1))
          then [UnequalValues ''RIGHT.<array>[0]'' (JFloat (Finite (1 / 2))) (JFloat (Finite 1))]
          else [])"
    using w1 s by blast
  have f: "log_of (compare_with_right (JSONComparator_init
          (JObject [(''a'', JFloat (Finite (1 / 2)))]) (JObject [(''a'', JFloat (Finite 1))])
          None None))
      = Inr [UnequalValues ''RIGHT.a'' (JFloat (Finite (1 / 2))) (JFloat (Finite 1))]"
    unfolding w1a using n by simp
  have g: "log_of (compare_with_right (JSONComparator_init
          (JArray [JFloat (Finite (1 / 2))]) (JArray [JFloat (Finite 1)]) None None))
      = Inr [UnequalValues ''RIGHT.<array>[0]'' (JFloat (Finite (1 / 2))) (JFloat (Finite 1))]"
    unfolding w1b using n by simp
  from t a b c d e s f g show ?thesis by (intro conjI)
qed

text \<open>C9 as stated fails: a boolean and a number are leaves of different JSON types, and
  \<^verbatim>\<open>true\<close> against 1 records nothing, in an object as in an array.\<close>

theorem C9_true_equals_one_counterexample:
  "type_of_json (JBool True) \<noteq> type_of_json (JInt 1)
   \<and> log_of (compare_with_right (JSONComparator_init
        (JObject [(''a'', JBool True)]) (JObject [(''a'', JInt 1)]) None None)) = Inr []
   \<and> log_of (compare_with_right (JSONComparator_init
        (JArray [JBool True]) (JArray [JInt 1]) None None)) = Inr []"
  by code_simp

section \<open>The scan of the keyed strategy\<close>

lemma py_eq_null_right: "py_eq v JNull = (v = JNull)"
  by (cases v) simp_all

lemma dict_get_null:
  "py_eq (dict_get kvs prop) JNull = (map_of kvs prop = None \<or> map_of kvs prop = Some JNull)"
  by (simp add: py_eq_null_right dict_get_def split: option.splits)

lemma dict_get_absent: "map_of kvs prop = None \<Longrightarrow> dict_get kvs prop = JNull"
  by (simp add: dict_get_def)

lemma similar_row_loop_closed:
  "similar_row_loop prop pv k (map JObject objs) =
     Inr (if \<exists>kvs\<in>set objs. py_eq (dict_get kvs prop) pv
          then Some (k + length (takeWhile (\<lambda>kvs. \<not> py_eq (dict_get kvs prop) pv) objs))
          else None)"
  by (induction objs arbitrary: k) simp_all

lemma keyed_scan_closed:
  "get_idx_of_similar_row prop prop_val (JArray (map JObject objs)) =
     Inr (if \<exists>kvs\<in>set objs. py_eq (dict_get kvs prop) prop_val
          then Some (length (takeWhile (\<lambda>kvs. \<not> py_eq (dict_get kvs prop) prop_val) objs))
          else None)"
  by (simp add: get_idx_of_similar_row_def similar_row_loop_closed)

lemma keyed_scan_null:
  "get_idx_of_similar_row prop JNull (JArray (map JObject objs)) =
     Inr (if \<exists>kvs\<in>set objs. map_of kvs prop = None \<or> map_of kvs prop = Some JNull
          then Some (length (takeWhile
                 (\<lambda>kvs. map_of kvs prop \<noteq> None \<and> map_of kvs prop \<noteq> Some JNull) objs))
          else None)"
  unfolding keyed_scan_closed dict_get_null by auto

lemma absent_not_selected:
  "prop_val \<noteq> JNull \<Longrightarrow> map_of kvs prop = None \<Longrightarrow> \<not> py_eq (dict_get kvs prop) prop_val"
  by (simp add: dict_get_absent)

lemma keyed_scan_skips:
  assumes "\<forall>kvs\<in>set pre. \<not> py_eq (dict_get kvs prop) prop_val"
    and "py_eq (dict_get hit prop) prop_val"
  shows "get_idx_of_similar_row prop prop_val (JArray (map JObject (pre @ hit # post)))
         = Inr (Some (length pre))"
proof -
  have "takeWhile (\<lambda>kvs. \<not> py_eq (dict_get kvs prop) prop_val) (pre @ hit # post) = pre"
    using assms by (simp add: takeWhile_append2)
  then show ?thesis unfolding keyed_scan_closed using assms(2) by auto
qed

lemma keyed_scan_non_object:
  assumes "\<forall>kvs\<in>set pre. \<not> py_eq (dict_get kvs prop) prop_val"
    and "\<not> is_dict x"
  shows "get_idx_of_similar_row prop prop_val (JArray (map JObject pre @ x # post))
         = Inl AttributeError"
proof -
  have g: "py_get x prop = Inl AttributeError" using assms(2) by (cases x) simp_all
  have "similar_row_loop prop prop_val k (map JObject pre @ x # post) = Inl AttributeError" for k
    using assms(1) by (induction pre arbitrary: k) (simp_all add: g)
  then show ?thesis by (simp add: get_idx_of_similar_row_def)
qed

lemma takeWhile_stops: "\<exists>x\<in>set xs. \<not> P x \<Longrightarrow> length (takeWhile P xs) < length xs"
  by (induction xs) auto

lemma nested_obj_prop_body_object:
  "nested_obj_prop_body self p idx (JObject kvs) (JArray (map JObject objs)) dl =
     (case get_target_prop_value self (setup_path dl p (''<array['' @ str_nat idx @ '']>'')) kvs of
        Inl e \<Rightarrow> Inl e
      | Inr tp \<Rightarrow>
          if \<exists>akvs\<in>set objs. py_eq (dict_get akvs (fst tp)) (snd tp)
          then compare_dicts self
                 (curr_path (setup_path dl p (''<array['' @ str_nat idx @ '']>''))) kvs
                 (JObject (objs ! length (takeWhile
                     (\<lambda>akvs. \<not> py_eq (dict_get akvs (fst tp)) (snd tp)) objs)))
                 (setup_path dl p (''<array['' @ str_nat idx @ '']>''))
          else Inr (missing_array_item (setup_path dl p (''<array['' @ str_nat idx @ '']>''))
                      (snd tp) (Some (fst tp))))"
proof (cases "get_target_prop_value self (setup_path dl p (''<array['' @ str_nat idx @ '']>'')) kvs")
  case (Inl e)
  then show ?thesis by (simp add: nested_obj_prop_body.simps Let_def del: compare_dicts.simps)
next
  case (Inr tp)
  show ?thesis
  proof (cases "\<exists>akvs\<in>set objs. py_eq (dict_get akvs (fst tp)) (snd tp)")
    case True
    then have "length (takeWhile (\<lambda>akvs. \<not> py_eq (dict_get akvs (fst tp)) (snd tp)) objs)
        < length objs"
      by (intro takeWhile_stops) simp
    then show ?thesis using Inr True
      by (simp add: nested_obj_prop_body.simps Let_def keyed_scan_closed
          del: compare_dicts.simps)
  next
    case False
    then show ?thesis using Inr
      by (simp add: nested_obj_prop_body.simps Let_def keyed_scan_closed
          del: compare_dicts.simps)
  qed
qed

lemma keyed_run_order_free:
  "log_of (compare_with_right ((JSONComparator_init
      (JArray [JObject [(''id'', JInt 1), (''v'', JString ''a'')],
               JObject [(''id'', JInt 2), (''v'', JString ''b'')]])
      (JArray [JObject [(''id'', JInt 2), (''v'', JString ''b'')],
               JObject [(''id'', JInt 1), (''v'', JString ''x'')]])
      (Some ''DATA.<array>.id'') None)\<lparr>has_target_key_path := True\<rparr>))
   = Inr [UnequalValues ''RIGHT.<array[0]>.v'' (JString ''a'') (JString ''x'')]"
  by code_simp

lemma keyed_run_skips_element_without_property:
  "log_of (compare_with_right ((JSONComparator_init
      (JArray [JObject [(''id'', JInt 1), (''v'', JString ''a'')]])
      (JArray [JObject [(''v'', JString ''a'')],
               JObject [(''id'', JInt 1), (''v'', JString ''y'')]])
      (Some ''DATA.<array>.id'') None)\<lparr>has_target_key_path := True\<rparr>))
   = Inr [ExceedingArrayItems ''RIGHT.<array>'' 1 2,
          UnequalValues ''RIGHT.<array[0]>.v'' (JString ''a'') (JString ''y'')]"
  by code_simp

lemma keyed_run_null_selects_element_without_property:
  "log_of (compare_with_right ((JSONComparator_init
      (JArray [JObject [(''id'', JNull), (''v'', JInt 5)]])
      (JArray [JObject [(''id'', JInt 1)], JObject [(''v'', JInt 7)],
               JObject [(''id'', JNull), (''v'', JInt 5)]])
      (Some ''DATA.<array>.id'') None)\<lparr>has_target_key_path := True\<rparr>))
   = Inr [ExceedingArrayItems ''RIGHT.<array>'' 1 3,
          MissingProperty ''RIGHT.<array[0]>.id'',
          UnequalValues ''RIGHT.<array[0]>.v'' (JInt 5) (JInt 7)]"
  by code_simp

lemma keyed_run_no_match:
  "log_of (compare_with_right ((JSONComparator_init
      (JArray [JObject [(''id'', JInt 3)]])
      (JArray [JObject [(''v'', JInt 1)]])
      (Some ''DATA.<array>.id'') None)\<lparr>has_target_key_path := True\<rparr>))
   = Inr [MissingArrayItem ''RIGHT.<array[0]>'' (JInt 3) (Some ''id'')]"
  by code_simp

lemma keyed_run_left:
  "log_of (compare_with_left ((JSONComparator_init
      (JArray [JObject [(''v'', JString ''a'')],
               JObject [(''id'', JInt 1), (''v'', JString ''y'')]])
      (JArray [JObject [(''id'', JInt 1), (''v'', JString ''a'')]])
      (Some ''DATA.<array>.id'') None)\<lparr>has_target_key_path := True\<rparr>))
   = Inr [ExceedingArrayItems ''LEFT.<array>'' 1 2,
          UnequalValues ''LEFT.<array[0]>.v'' (JString ''a'') (JString ''y'')]"
  by code_simp

text \<open>
  C10 (the keyed scan and actual elements without the identifying property), as the code has
  it.  Over an actual array of objects the scan never fails: it reads \<^verbatim>\<open>obj.get(prop)\<close>,
  which is \<^verbatim>\<open>None\<close> for an object without the property, and returns the first index whose
  value equals the expected one, or \<^verbatim>\<open>None\<close> when there is no such object.  An object
  without the property is passed over for every expected value other than null; for the
  expected value null the selected object is the first one that lacks the property or holds
  null.  An element that is not an object has no \<^verbatim>\<open>get\<close>: when the scan reaches one
  before a match, it raises \<^verbatim>\<open>AttributeError\<close>.  The loop body resolves the identifying
  property (an error there is propagated), then compares the expected object against the
  selected one, or records the missing item when there is none.  With the keyed strategy
  switched on, the entry points produce the logs given for five pairs of documents: the
  example of the specification, an actual object without the property that is passed over, an
  expected null that selects the object without the property, no match at all, and the other
  direction.
\<close>

theorem C10_keyed_scan_reads_missing_property_of_object_as_null:
  "get_idx_of_similar_row prop prop_val (JArray (map JObject objs)) =
     Inr (if \<exists>kvs\<in>set objs. py_eq (dict_get kvs prop) prop_val
          then Some (length (takeWhile (\<lambda>kvs. \<not> py_eq (dict_get kvs prop) prop_val) objs))
          else None)
   \<and> (map_of kvs prop = None \<longrightarrow> dict_get kvs prop = JNull)
   \<and> (prop_val \<noteq> JNull \<and> map_of kvs prop = None \<longrightarrow> \<not> py_eq (dict_get kvs prop) prop_val)
   \<and> get_idx_of_similar_row prop JNull (JArray (map JObject objs)) =
       Inr (if \<exists>kvs\<in>set objs. map_of kvs prop = None \<or> map_of kvs prop = Some JNull
            then Some (length (takeWhile
                   (\<lambda>kvs. map_of kvs prop \<noteq> None \<and> map_of kvs prop \<noteq> Some JNull) objs))
            else None)
   \<and> ((\<forall>kvs\<in>set pre. \<not> py_eq (dict_get kvs prop) prop_val) \<and> \<not> is_dict x \<longrightarrow>
        get_idx_of_similar_row prop prop_val (JArray (map JObject pre @ x # post))
          = Inl AttributeError)
   \<and> nested_obj_prop_body self p idx (JObject kvs) (JArray (map JObject objs)) dl =
       (case get_target_prop_value self (setup_path dl p (''<array['' @ str_nat idx @ '']>'')) kvs of
          Inl e \<Rightarrow> Inl e
        | Inr tp \<Rightarrow>
            if \<exists>akvs\<in>set objs. py_eq (dict_get akvs (fst tp)) (snd tp)
            then compare_dicts self
                   (curr_path (setup_path dl p (''<array['' @ str_nat idx @ '']>''))) kvs
                   (JObject (objs ! length (takeWhile
                       (\<lambda>akvs. \<not> py_eq (dict_get akvs (fst tp)) (snd tp)) objs)))
                   (setup_path dl p (''<array['' @ str_nat idx @ '']>''))
            else Inr (missing_array_item (setup_path dl p (''<array['' @ str_nat idx @ '']>''))
                        (snd tp) (Some (fst tp))))
   \<and> log_of (compare_with_right ((JSONComparator_init
        (JArray [JObject [(''id'', JInt 1), (''v'', JString ''a'')],
                 JObject [(''id'', JInt 2), (''v'', JString ''b'')]])
        (JArray [JObject [(''id'', JInt 2), (''v'', JString ''b'')],
                 JObject [(''id'', JInt 1), (''v'', JString ''x'')]])
        (Some ''DATA.<array>.id'') None)\<lparr>has_target_key_path := True\<rparr>))
     = Inr [UnequalValues ''RIGHT.<array[0]>.v'' (JString ''a'') (JString ''x'')]
   \<and> log_of (compare_with_right ((JSONComparator_init
        (JArray [JObject [(''id'', JInt 1), (''v'', JString ''a'')]])
        (JArray [JObject [(''v'', JString ''a'')],
                 JObject [(''id'', JInt 1), (''v'', JString ''y'')]])
        (Some ''DATA.<array>.id'') None)\<lparr>has_target_key_path := True\<rparr>))
     = Inr [ExceedingArrayItems ''RIGHT.<array>'' 1 2,
            UnequalValues ''RIGHT.<array[0]>.v'' (JString ''a'') (JString ''y'')]
   \<and> log_of (compare_with_right ((JSONComparator_init
        (JArray [JObject [(''id'', JNull), (''v'', JInt 5)]])
        (JArray [JObject [(''id'', JInt 1)], JObject [(''v'', JInt 7)],
                 JObject [(''id'', JNull), (''v'', JInt 5)]])
        (Some ''DATA.<array>.id'') None)\<lparr>has_target_key_path := True\<rparr>))
     = Inr [ExceedingArrayItems ''RIGHT.<array>'' 1 3,
            MissingProperty ''RIGHT.<array[0]>.id'',
            UnequalValues ''RIGHT.<array[0]>.v'' (JInt 5) (JInt 7)]
   \<and> log_of (compare_with_right ((JSONComparator_init
        (JArray [JObject [(''id'', JInt 3)]])
        (JArray [JObject [(''v'', JInt 1)]])
        (Some ''DATA.<array>.id'') None)\<lparr>has_target_key_path := True\<rparr>))
     = Inr [MissingArrayItem ''RIGHT.<array[0]>'' (JInt 3) (Some ''id'')]
   \<and> log_of (compare_with_left ((JSONComparator_init
        (JArray [JObject [(''v'', JString ''a'')],
                 JObject [(''id'', JInt 1), (''v'', JString ''y'')]])
        (JArray [JObject [(''id'', JInt 1), (''v'', JString ''a'')]])
        (Some ''DATA.<array>.id'') None)\<lparr>has_target_key_path := True\<rparr>))
     = Inr [ExceedingArrayItems ''LEFT.<array>'' 1 2,
            UnequalValues ''LEFT.<array[0]>.v'' (JString ''a'') (JString ''y'')]"
  apply (rule conjI, rule keyed_scan_closed)
  apply (rule conjI, rule impI, erule dict_get_absent)
  apply (rule conjI, rule impI, elim conjE, erule absent_not_selected, assumption)
  apply (rule conjI, rule keyed_scan_null)
  apply (rule conjI, rule impI, elim conjE, erule keyed_scan_non_object, assumption)
  apply (rule conjI, rule nested_obj_prop_body_object)
  apply (rule conjI, rule keyed_run_order_free)
  apply (rule conjI, rule keyed_run_skips_element_without_property)
  apply (rule conjI, rule keyed_run_null_selects_element_without_property)
  apply (rule conjI, rule keyed_run_no_match)
  apply (rule keyed_run_left)
  done

text \<open>C10 as stated fails: the actual array \<^verbatim>\<open>[7, {"id": 1}]\<close> begins with an element that
  lacks the identifying property, and the scan for the expected value 1 raises
  \<^verbatim>\<open>AttributeError\<close> at it instead of passing it over.\<close>

theorem C10_non_object_element_raises_counterexample:
  "get_idx_of_similar_row ''id'' (JInt 1) (JArray [JInt 7, JObject [(''id'', JInt 1)]])
     = Inl AttributeError
   \<and> log_of (compare_with_right ((JSONComparator_init
        (JArray [JObject [(''id'', JInt 1)]])
        (JArray [JInt 7, JObject [(''id'', JInt 1)]])
        (Some ''DATA.<array>.id'') None)\<lparr>has_target_key_path := True\<rparr>))
     = Inl AttributeError"
  by code_simp

text \<open>C10 at concrete arrays: an object without \<^verbatim>\<open>id\<close> is passed over for the expected
  value 1; the number 7 raises; for the expected value null the first actual object holds 1,
  the second lacks the property and is selected although the third holds null.\<close>

theorem C10_keyed_scan_witness:
  "get_idx_of_similar_row ''id'' (JInt 1)
      (JArray (map JObject [[(''v'', JString ''a'')], [(''id'', JInt 1), (''v'', JString ''y'')]]))
      = Inr (Some 1)
   \<and> map_of [(''v'', JInt 7)] ''id'' = None
   \<and> dict_get [(''v'', JInt 7)] ''id'' = JNull
   \<and> JInt 1 \<noteq> JNull
   \<and> \<not> py_eq (dict_get [(''v'', JInt 7)] ''id'') (JInt 1)
   \<and> \<not> is_dict (JInt 7)
   \<and> get_idx_of_similar_row ''id'' (JInt 1)
        (JArray (map JObject [[(''v'', JInt 7)]] @ JInt 7 # [JObject [(''id'', JInt 1)]]))
      = Inl AttributeError
   \<and> get_idx_of_similar_row ''id'' JNull
        (JArray (map JObject [[(''id'', JInt 1)], [(''v'', JInt 7)], [(''id'', JNull)]]))
      = Inr (Some 1)
   \<and> nested_obj_prop_body
        (JSONComparator_init (JArray []) (JArray []) (Some ''RIGHT.<array>.id'') None)
        ''RIGHT'' 0 (JObject [(''id'', JNull), (''v'', JInt 5)])
        (JArray (map JObject [[(''id'', JInt 1)], [(''v'', JInt 7)], [(''id'', JNull)]]))
        LogProcessor_init
      = compare_dicts
        (JSONComparator_init (JArray []) (JArray []) (Some ''RIGHT.<array>.id'') None)
        (curr_path (setup_path LogProcessor_init ''RIGHT'' (''<array['' @ str_nat 0 @ '']>'')))
        [(''id'', JNull), (''v'', JInt 5)] (JObject [(''v'', JInt 7)])
        (setup_path LogProcessor_init ''RIGHT'' (''<array['' @ str_nat 0 @ '']>''))"
proof -
  let ?S = "JSONComparator_init (JArray []) (JArray []) (Some ''RIGHT.<array>.id'') None"
  let ?objs = "[[(''id'', JInt 1)], [(''v'', JInt 7)], [(''id'', JNull)]]"
  let ?kvs = "[(''id'', JNull), (''v'', JInt 5)]"
  let ?dl1 = "setup_path LogProcessor_init ''RIGHT'' (''<array['' @ str_nat 0 @ '']>'')"
  note wa = C10_keyed_scan_reads_missing_property_of_object_as_null
      [of "''id''" "JInt 1" "[[(''v'', JString ''a'')], [(''id'', JInt 1), (''v'', JString ''y'')]]"
          "[(''v'', JInt 7)]" "[[(''v'', JInt 7)]]" "JInt 7" "[JObject [(''id'', JInt 1)]]"
          ?S "''RIGHT''" 0 LogProcessor_init]
  note wb = C10_keyed_scan_reads_missing_property_of_object_as_null
      [of "''id''" JNull ?objs ?kvs "[]" JNull "[]" ?S "''RIGHT''" 0 LogProcessor_init]
  note a1 = wa [THEN conjunct1]
  note a2 = wa [THEN conjunct2, THEN conjunct1]
  note a3 = wa [THEN conjunct2, THEN conjunct2, THEN conjunct1]
  note a5 = wa [THEN conjunct2, THEN conjunct2, THEN conjunct2, THEN conjunct2, THEN conjunct1]
  note b4 = wb [THEN conjunct2, THEN conjunct2, THEN conjunct2, THEN conjunct1]
  note b6 = wb [THEN conjunct2, THEN conjunct2, THEN conjunct2, THEN conjunct2, THEN conjunct2,
      THEN conjunct1]
  have m: "map_of [(''v'', JInt 7)] ''id'' = None" by simp
  have n: "JInt 1 \<noteq> JNull" by simp
  have q: "\<forall>kvs\<in>set [[(''v'', JInt 7)]]. \<not> py_eq (dict_get kvs ''id'') (JInt 1)"
    by (simp add: dict_get_def)
  have d: "\<not> is_dict (JInt 7)" by simp
  have c1: "get_idx_of_similar_row ''id'' (JInt 1)
      (JArray (map JObject [[(''v'', JString ''a'')], [(''id'', JInt 1), (''v'', JString ''y'')]]))
      = Inr (Some 1)"
    unfolding a1 by (simp add: dict_get_def)
  have c2: "dict_get [(''v'', JInt 7)] ''id'' = JNull"
    using a2 m by (rule mp)
  have c3: "\<not> py_eq (dict_get [(''v'', JInt 7)] ''id'') (JInt 1)"
    using a3 n m by blast
  have c5: "get_idx_of_similar_row ''id'' (JInt 1)
        (JArray (map JObject [[(''v'', JInt 7)]] @ JInt 7 # [JObject [(''id'', JInt 1)]]))
      = Inl AttributeError"
    using a5 q d by blast
  have c4: "get_idx_of_similar_row ''id'' JNull (JArray (map JObject ?objs)) = Inr (Some 1)"
    unfolding b4 by simp
  have t: "get_target_prop_value ?S ?dl1 ?kvs = Inr (''id'', JNull)"
    by code_simp
  have c6: "nested_obj_prop_body ?S ''RIGHT'' 0 (JObject ?kvs) (JArray (map JObject ?objs))
        LogProcessor_init
      = compare_dicts ?S (curr_path ?dl1) ?kvs (JObject [(''v'', JInt 7)]) ?dl1"
    unfolding b6 t by (simp add: dict_get_def del: compare_dicts.simps)
  from c1 m c2 n c3 d c5 c4 c6 show ?thesis by (intro conjI)
qed

section \<open>Rewriting the root label of the target property\<close>

lemma substring_Cons: "substring b cs \<Longrightarrow> substring b (c # cs)"
  by simp

lemma substring_drop: "substring b (drop n s) \<Longrightarrow> substring b s"
proof (induction s arbitrary: n)
  case Nil
  then show ?case by simp
next
  case (Cons c cs)
  show ?case
  proof (cases n)
    case 0
    with Cons.prems show ?thesis by simp
  next
    case (Suc m)
    with Cons.prems have "substring b (drop m cs)" by simp
    then have "substring b cs" by (rule Cons.IH)
    then show ?thesis by (rule substring_Cons)
  qed
qed

lemma prefix_substring: "prefix b s \<Longrightarrow> substring b s"
  by (cases s) simp_all

lemma replace_match:
  "prefix (a0 # as) (c # cs) \<Longrightarrow>
   replace (a0 # as) new (c # cs) = new @ replace (a0 # as) new (drop (length as) cs)"
  unfolding replace.simps(3) by (rule if_P)

lemma replace_nomatch:
  "\<not> prefix (a0 # as) (c # cs) \<Longrightarrow>
   replace (a0 # as) new (c # cs) = c # replace (a0 # as) new cs"
  unfolding replace.simps(3) by (rule if_not_P)

lemma prefix_replace_back:
  "b0 \<notin> set p \<Longrightarrow> prefix p (replace (a0 # as) (b0 # bs) s) \<Longrightarrow> prefix p s"
proof (induction p arbitrary: s)
  case Nil
  then show ?case by simp
next
  case (Cons x xs)
  show ?case
  proof (cases s)
    case Nil
    with Cons.prems show ?thesis by simp
  next
    case (Cons c cs)
    note s = this
    show ?thesis
    proof (cases "prefix (a0 # as) (c # cs)")
      case True
      from Cons.prems(2) have "prefix (x # xs) ((b0 # bs) @ replace (a0 # as) (b0 # bs) (drop (length as) cs))"
        unfolding s replace_match [OF True] .
      then have "x = b0" by simp
      with Cons.prems(1) show ?thesis by simp
    next
      case False
      from Cons.prems(2) have "prefix (x # xs) (c # replace (a0 # as) (b0 # bs) cs)"
        unfolding s replace_nomatch [OF False] .
      then have xc: "x = c \<and> prefix xs (replace (a0 # as) (b0 # bs) cs)" by simp
      from Cons.prems(1) have "b0 \<notin> set xs" by simp
      with xc have "prefix xs cs" using Cons.IH [of cs] by blast
      with xc show ?thesis unfolding s by simp
    qed
  qed
qed

lemma replace_chain:
  "b0 \<notin> set bs \<Longrightarrow> \<not> substring (b0 # bs) s \<Longrightarrow>
   replace (b0 # bs) c (replace (a0 # as) (b0 # bs) s) = replace (a0 # as) c s"
proof (induction s rule: length_induct)
  case (1 s)
  show ?case
  proof (cases s)
    case Nil
    then show ?thesis by simp
  next
    case (Cons d ds)
    note s = this
    show ?thesis
    proof (cases "prefix (a0 # as) (d # ds)")
      case True
      let ?rest = "drop (length as) ds"
      have l: "length ?rest < length s" using s by simp
      have "substring (b0 # bs) ?rest \<Longrightarrow> substring (b0 # bs) s"
        unfolding s by (rule substring_Cons, rule substring_drop)
      with "1.prems"(2) have n: "\<not> substring (b0 # bs) ?rest" by blast
      from "1.IH" l "1.prems"(1) n
      have ih: "replace (b0 # bs) c (replace (a0 # as) (b0 # bs) ?rest) = replace (a0 # as) c ?rest"
        by blast
      have "replace (a0 # as) (b0 # bs) s = (b0 # bs) @ replace (a0 # as) (b0 # bs) ?rest"
        unfolding s by (rule replace_match [OF True])
      then have "replace (b0 # bs) c (replace (a0 # as) (b0 # bs) s)
          = c @ replace (b0 # bs) c (replace (a0 # as) (b0 # bs) ?rest)"
        by simp
      also have "\<dots> = c @ replace (a0 # as) c ?rest" by (simp only: ih)
      also have "\<dots> = replace (a0 # as) c s"
        unfolding s by (rule replace_match [OF True, symmetric])
      finally show ?thesis .
    next
      case False
      have l: "length ds < length s" using s by simp
      from "1.prems"(2) s have n: "\<not> substring (b0 # bs) ds" by simp
      from "1.IH" l "1.prems"(1) n
      have ih: "replace (b0 # bs) c (replace (a0 # as) (b0 # bs) ds) = replace (a0 # as) c ds"
        by blast
      have np: "\<not> prefix (b0 # bs) (d # replace (a0 # as) (b0 # bs) ds)"
      proof
        assume p: "prefix (b0 # bs) (d # replace (a0 # as) (b0 # bs) ds)"
        then have db: "b0 = d \<and> prefix bs (replace (a0 # as) (b0 # bs) ds)"
          unfolding Cons_prefix_Cons .
        with "1.prems"(1) have "prefix bs ds" using prefix_replace_back by blast
        with db have "prefix (b0 # bs) (d # ds)" by simp
        then have "substring (b0 # bs) s" unfolding s by (rule prefix_substring)
        with "1.prems"(2) show False by blast
      qed
      have "replace (a0 # as) (b0 # bs) s = d # replace (a0 # as) (b0 # bs) ds"
        unfolding s by (rule replace_nomatch [OF False])
      then have "replace (b0 # bs) c (replace (a0 # as) (b0 # bs) s)
          = d # replace (b0 # bs) c (replace (a0 # as) (b0 # bs) ds)"
        using replace_nomatch [OF np] by simp
      also have "\<dots> = d # replace (a0 # as) c ds" by (simp only: ih)
      also have "\<dots> = replace (a0 # as) c s"
        unfolding s by (rule replace_nomatch [OF False, symmetric])
      finally show ?thesis .
    qed
  qed
qed

lemma replace_same: "replace (a0 # as) (a0 # as) s = s"
proof (induction s rule: length_induct)
  case (1 s)
  show ?case
  proof (cases s)
    case Nil
    then show ?thesis by simp
  next
    case (Cons d ds)
    note s = this
    show ?thesis
    proof (cases "prefix (a0 # as) (d # ds)")
      case True
      let ?rest = "drop (length as) ds"
      have l: "length ?rest < length s" using s by simp
      from "1.IH" l have ih: "replace (a0 # as) (a0 # as) ?rest = ?rest" by blast
      from True obtain zs where z: "d # ds = (a0 # as) @ zs" by (auto simp: prefix_def)
      then have r: "?rest = zs" by simp
      have "replace (a0 # as) (a0 # as) s = (a0 # as) @ replace (a0 # as) (a0 # as) ?rest"
        unfolding s by (rule replace_match [OF True])
      also have "\<dots> = (a0 # as) @ zs" using ih r by simp
      finally show ?thesis using z s by simp
    next
      case False
      have l: "length ds < length s" using s by simp
      from "1.IH" l have ih: "replace (a0 # as) (a0 # as) ds = ds" by blast
      show ?thesis unfolding s replace_nomatch [OF False] ih ..
    qed
  qed
qed

lemma right_data_right: "\<not> substring ''RIGHT'' s \<Longrightarrow> replace ''RIGHT'' ''DATA'' (replace ''DATA'' ''RIGHT'' s) = s"
  using replace_chain [of "CHR ''R''" "''IGHT''" s "''DATA''" "CHR ''D''" "''ATA''"]
    replace_same [of "CHR ''D''" "''ATA''" s] by simp

lemma left_data_left: "\<not> substring ''LEFT'' s \<Longrightarrow> replace ''LEFT'' ''DATA'' (replace ''DATA'' ''LEFT'' s) = s"
  using replace_chain [of "CHR ''L''" "''EFT''" s "''DATA''" "CHR ''D''" "''ATA''"]
    replace_same [of "CHR ''D''" "''ATA''" s] by simp

lemma right_left_data:
  "\<not> substring ''RIGHT'' s \<Longrightarrow> \<not> substring ''LEFT'' s \<Longrightarrow>
   replace ''LEFT'' ''DATA'' (replace ''RIGHT'' ''LEFT'' (replace ''DATA'' ''RIGHT'' s)) = s"
  using replace_chain [of "CHR ''R''" "''IGHT''" s "''LEFT''" "CHR ''D''" "''ATA''"]
    left_data_left [of s] by simp

lemma compare_frame:
  "compare s w = Inr s' \<Longrightarrow> \<exists>dl. s' = s\<lparr>diff_log := dl\<rparr>"
  unfolding compare_def Let_def
  by (cases "left_data s") (auto split: sum.splits)

lemma compare_target_property:
  "compare s w = Inr s' \<Longrightarrow> target_property s' = target_property s"
  using compare_frame [of s w s'] by auto

lemma edit_target: "target_property (edit_target_prop_path_root s a b) = replace a b (target_property s)"
  by (simp add: edit_target_prop_path_root_def)

lemma clear_target: "target_property (clear_log s) = target_property s"
  by (simp add: clear_log_def)

lemma compare_with_right_target:
  "compare_with_right self = Inr s \<Longrightarrow>
   target_property s = replace ''RIGHT'' ''DATA'' (replace ''DATA'' ''RIGHT'' (target_property self))"
  unfolding compare_with_right_def
  by (auto split: sum.splits simp: edit_target clear_target dest!: compare_target_property)

lemma compare_with_left_target:
  "compare_with_left self = Inr s \<Longrightarrow>
   target_property s = replace ''LEFT'' ''DATA'' (replace ''DATA'' ''LEFT'' (target_property self))"
  unfolding compare_with_left_def
  by (auto split: sum.splits simp: edit_target clear_target dest!: compare_target_property)

lemma full_compare_target:
  "full_compare self = Inr s \<Longrightarrow>
   target_property s = replace ''LEFT'' ''DATA'' (replace ''RIGHT'' ''LEFT''
      (replace ''DATA'' ''RIGHT'' (target_property self)))"
  unfolding full_compare_def
  by (auto split: sum.splits simp: edit_target clear_target dest!: compare_target_property)

text \<open>
  When the configured path contains neither \<^verbatim>\<open>RIGHT\<close> nor \<^verbatim>\<open>LEFT\<close>, the rewriting steps of
  an entry point undo each other, and an operation that returns leaves the path as it was.
\<close>

lemma target_property_restored_without_root_labels:
  "(\<not> substring ''RIGHT'' (target_property self) \<and> compare_with_right self = Inr s
      \<longrightarrow> target_property s = target_property self)
   \<and> (\<not> substring ''LEFT'' (target_property self) \<and> compare_with_left self = Inr s
      \<longrightarrow> target_property s = target_property self)
   \<and> (\<not> substring ''RIGHT'' (target_property self) \<and> \<not> substring ''LEFT'' (target_property self)
      \<and> full_compare self = Inr s
      \<longrightarrow> target_property s = target_property self)"
  apply (intro conjI impI; elim conjE)
  subgoal using compare_with_right_target [of self s] right_data_right [of "target_property self"]
    by simp
  subgoal using compare_with_left_target [of self s] left_data_left [of "target_property self"]
    by simp
  subgoal using full_compare_target [of self s] right_left_data [of "target_property self"]
    by simp
  done

text \<open>
  C7 (every entry point leaves the configured target property as it was).  Each entry point
  rewrites the root label and rewrites it back, but \<^verbatim>\<open>__edit_target_prop_path_root\<close> is
  \<^verbatim>\<open>str.replace\<close> over the whole path: on the way back it also rewrites the occurrences of
  \<^verbatim>\<open>RIGHT\<close> or \<^verbatim>\<open>LEFT\<close> that the caller's path held in a property name.  A path without
  them, like the one of the constructor's docstring, comes back unchanged.
\<close>

theorem C7_root_label_rewrite_changes_configured_path:
  "target_of (compare_with_right (JSONComparator_init (JObject []) (JObject [])
      (Some ''DATA.COPYRIGHT.<array>.id'') None)) = Inr ''DATA.COPYDATA.<array>.id''
   \<and> target_of (compare_with_left (JSONComparator_init (JObject []) (JObject [])
      (Some ''DATA.LEFTOVER.<array>.id'') None)) = Inr ''DATA.DATAOVER.<array>.id''
   \<and> target_of (full_compare (JSONComparator_init (JObject []) (JObject [])
      (Some ''DATA.COPYRIGHT.<array>.id'') None)) = Inr ''DATA.COPYDATA.<array>.id''
   \<and> target_of (full_compare (JSONComparator_init (JObject []) (JObject [])
      (Some ''DATA.LEFTOVER.<array>.id'') None)) = Inr ''DATA.DATAOVER.<array>.id''
   \<and> target_of (compare_with_right (JSONComparator_init (JObject []) (JObject [])
      (Some ''DATA.cats.<array>.id'') None)) = Inr ''DATA.cats.<array>.id''"
  by code_simp

section \<open>Stripping the index brackets\<close>

lemma takeWhile_drop_within:
  "m \<le> length (takeWhile P cs) \<Longrightarrow> takeWhile P (drop m cs) = drop m (takeWhile P cs)"
proof (induction cs arbitrary: m)
  case Nil
  then show ?case by simp
next
  case (Cons c cs)
  show ?case
  proof (cases m)
    case 0
    then show ?thesis by simp
  next
    case (Suc k)
    with Cons.prems have pc: "P c" by (cases "P c") simp_all
    with Cons.prems Suc have "k \<le> length (takeWhile P cs)" by simp
    then have "takeWhile P (drop k cs) = drop k (takeWhile P cs)" by (rule Cons.IH)
    with pc Suc show ?thesis by simp
  qed
qed

lemma match_end_le: "match_end cs \<le> length (no_paren_run cs)"
  by (simp add: match_end_def)

lemma no_paren_run_drop:
  "no_paren_run (drop (match_end cs) cs) = drop (match_end cs) (no_paren_run cs)"
  unfolding no_paren_run_def
  using match_end_le [of cs, unfolded no_paren_run_def] by (rule takeWhile_drop_within)

lemma re_sub_idx_match:
  "CHR '']'' \<in> set (no_paren_run cs) \<Longrightarrow>
   re_sub_idx (CHR ''['' # cs) = re_sub_idx (drop (match_end cs) cs)"
  by simp

lemma re_sub_idx_nomatch:
  "\<not> (c = CHR ''['' \<and> CHR '']'' \<in> set (no_paren_run cs)) \<Longrightarrow>
   re_sub_idx (c # cs) = c # re_sub_idx cs"
  unfolding re_sub_idx.simps(2) by (rule if_not_P)

lemma no_paren_run_re_sub_idx: "set (no_paren_run (re_sub_idx s)) \<subseteq> set (no_paren_run s)"
proof (induction s rule: re_sub_idx.induct)
  case 1
  then show ?case by simp
next
  case (2 c cs)
  show ?case
  proof (cases "c = CHR ''['' \<and> CHR '']'' \<in> set (no_paren_run cs)")
    case True
    then have e: "re_sub_idx (c # cs) = re_sub_idx (drop (match_end cs) cs)" by simp
    from True "2.IH"(1)
    have "set (no_paren_run (re_sub_idx (drop (match_end cs) cs)))
        \<subseteq> set (no_paren_run (drop (match_end cs) cs))" by blast
    also have "\<dots> \<subseteq> set (no_paren_run cs)"
      unfolding no_paren_run_drop by (rule set_drop_subset)
    also have "\<dots> \<subseteq> set (no_paren_run (c # cs))"
      using True by (auto simp: no_paren_run_def)
    finally show ?thesis unfolding e .
  next
    case False
    then have e: "re_sub_idx (c # cs) = c # re_sub_idx cs" by (rule re_sub_idx_nomatch)
    from False "2.IH"(2)
    have ih: "set (no_paren_run (re_sub_idx cs)) \<subseteq> set (no_paren_run cs)" by blast
    show ?thesis unfolding e using ih by (auto simp: no_paren_run_def)
  qed
qed

lemma re_sub_idx_idem: "re_sub_idx (re_sub_idx s) = re_sub_idx s"
proof (induction s rule: re_sub_idx.induct)
  case 1
  then show ?case by simp
next
  case (2 c cs)
  show ?case
  proof (cases "c = CHR ''['' \<and> CHR '']'' \<in> set (no_paren_run cs)")
    case True
    then have e: "re_sub_idx (c # cs) = re_sub_idx (drop (match_end cs) cs)" by simp
    from True "2.IH"(1) show ?thesis unfolding e by blast
  next
    case False
    then have e: "re_sub_idx (c # cs) = c # re_sub_idx cs" by (rule re_sub_idx_nomatch)
    from False "2.IH"(2) have ih: "re_sub_idx (re_sub_idx cs) = re_sub_idx cs" by blast
    have "\<not> (c = CHR ''['' \<and> CHR '']'' \<in> set (no_paren_run (re_sub_idx cs)))"
      using False no_paren_run_re_sub_idx [of cs] by blast
    then have "re_sub_idx (c # re_sub_idx cs) = c # re_sub_idx (re_sub_idx cs)"
      by (rule re_sub_idx_nomatch)
    then show ?thesis unfolding e ih .
  qed
qed

text \<open>
  C8 (index stripping removes the bracketed indices and nothing else).  The pattern is
  \<^verbatim>\<open>\[[^()]*\]\<close>: its class excludes parentheses, not brackets, so one match runs from the
  first \<^verbatim>\<open>[\<close> to the last \<^verbatim>\<open>]\<close> of the path and takes the property names between two
  indexed segments with it.  A path through two arrays is stripped to the same string as a
  path through one, and an ignore entry written for the nested property does not suppress its
  mismatch.  Stripping twice equals stripping once.
\<close>

theorem C8_greedy_pattern_removes_names_between_indices:
  "re_sub_idx ''RIGHT.a.<array>[0].b.<array>[1].c'' = ''RIGHT.a.<array>.c''
   \<and> re_sub_idx ''RIGHT.a.<array>[0].c'' = ''RIGHT.a.<array>.c''
   \<and> log_of (compare_with_right (JSONComparator_init
        (JObject [(''a'', JArray [JObject [(''b'', JArray [JObject [(''c'', JInt 1)]])]])])
        (JObject [(''a'', JArray [JObject [(''b'', JArray [JObject [(''c'', JInt 2)]])]])])
        None (Some [''DATA.a.<array>.b.<array>.c''])))
      = Inr [UnequalValues ''RIGHT.a.<array>[0].b.<array>[0].c'' (JInt 1) (JInt 2)]
   \<and> re_sub_idx (re_sub_idx s) = re_sub_idx s"
proof -
  have a: "re_sub_idx ''RIGHT.a.<array>[0].b.<array>[1].c'' = ''RIGHT.a.<array>.c''"
    by code_simp
  have b: "re_sub_idx ''RIGHT.a.<array>[0].c'' = ''RIGHT.a.<array>.c''"
    by code_simp
  have c: "log_of (compare_with_right (JSONComparator_init
        (JObject [(''a'', JArray [JObject [(''b'', JArray [JObject [(''c'', JInt 1)]])]])])
        (JObject [(''a'', JArray [JObject [(''b'', JArray [JObject [(''c'', JInt 2)]])]])])
        None (Some [''DATA.a.<array>.b.<array>.c''])))
      = Inr [UnequalValues ''RIGHT.a.<array>[0].b.<array>[0].c'' (JInt 1) (JInt 2)]"
    by code_simp
  from a b c re_sub_idx_idem [of s] show ?thesis by (intro conjI)
qed

section \<open>Comparing a document against itself\<close>

text \<open>From here on the loop bodies and the list strategies are unfolded only where a proof
  asks for it.\<close>

declare compare_dicts_body.simps [simp del]
declare items_order_body.simps [simp del]
declare nested_obj_prop_body.simps [simp del]
declare compare_lists.simps [simp del]
declare compare_with_items_order_respect.simps [simp del]
declare compare_with_nested_obj_prop_respect.simps [simp del]

lemma keeps_log_Inr: "keeps_log dl (Inr dl') = (log_lines dl' = log_lines dl)"
  by (simp add: keeps_log_def)

lemma keeps_log_trans:
  "log_lines dl1 = log_lines dl \<Longrightarrow> keeps_log dl1 r \<Longrightarrow> keeps_log dl r"
  by (simp add: keeps_log_def split: sum.splits)

lemma keeps_logE:
  assumes "keeps_log dl r"
  obtains dl' where "r = Inr dl'" and "log_lines dl' = log_lines dl"
  using assms by (cases r) (simp_all add: keeps_log_def)

lemma log_lines_setup_path: "log_lines (setup_path dl p k) = log_lines dl"
  by (simp add: setup_path_def)

lemma wf_items_iff: "wf_items kvs = (\<forall>kv\<in>set kvs. wf_json (snd kv))"
  by (induction kvs) auto

lemma wf_jsons_iff: "wf_jsons xs = (\<forall>x\<in>set xs. wf_json x)"
  by (induction xs) auto

lemma nan_free_items_iff: "nan_free_items kvs = (\<forall>kv\<in>set kvs. nan_free (snd kv))"
  by (induction kvs) auto

lemma nan_frees_iff: "nan_frees xs = (\<forall>x\<in>set xs. nan_free x)"
  by (induction xs) auto

lemma py_ne_same_scalar:
  "\<not> is_dict v \<Longrightarrow> \<not> is_list v \<Longrightarrow> nan_free v \<Longrightarrow> \<not> py_ne v v"
proof (cases v)
  case (JFloat f)
  then show "nan_free v \<Longrightarrow> \<not> py_ne v v" by (cases f) (simp_all add: py_ne_def)
qed (simp_all add: py_ne_def)

lemma compare_dicts_body_dict:
  "map_of akvs key = Some (JObject kvs) \<Longrightarrow>
   compare_dicts_body self p key (JObject kvs) (JObject akvs) dl =
     compare_dicts self (curr_path (setup_path dl p key)) kvs (JObject kvs) (setup_path dl p key)"
  by (simp add: compare_dicts_body.simps Let_def)

lemma compare_dicts_body_list:
  "map_of akvs key = Some (JArray xs) \<Longrightarrow>
   compare_dicts_body self p key (JArray xs) (JObject akvs) dl =
     compare_lists self (curr_path (setup_path dl p key)) xs (JArray xs) (setup_path dl p key)"
  by (simp add: compare_dicts_body.simps Let_def)

lemma items_order_body_dict:
  "idx < length avs \<Longrightarrow> avs ! idx = JObject kvs \<Longrightarrow>
   items_order_body self p idx (JObject kvs) (JArray avs) (length avs) dl =
     compare_dicts self (curr_path (setup_path dl p (''<array>['' @ str_nat idx @ '']''))) kvs
       (JObject kvs) (setup_path dl p (''<array>['' @ str_nat idx @ '']''))"
  by (simp add: items_order_body.simps Let_def)

lemma items_order_body_list:
  "idx < length avs \<Longrightarrow> avs ! idx = JArray xs \<Longrightarrow>
   items_order_body self p idx (JArray xs) (JArray avs) (length avs) dl =
     compare_lists self (curr_path (setup_path dl p (''<array>['' @ str_nat idx @ '']''))) xs
       (JArray xs) (setup_path dl p (''<array>['' @ str_nat idx @ '']''))"
  by (simp add: items_order_body.simps Let_def)

lemma compare_lists_same_length:
  "\<not> has_target_key_path self \<Longrightarrow> length xs = length ys \<Longrightarrow>
   compare_lists self p xs (JArray ys) dl =
     items_order_loop self p 0 xs (JArray ys) (length ys) (setup_path dl p ''<array>'')"
  by (simp add: compare_lists.simps compare_with_items_order_respect.simps
      check_array_lengths_def Let_def)

lemma same_dict_stepD:
  "same_dict_step v \<Longrightarrow> \<not> has_target_key_path self \<Longrightarrow> map_of akvs key = Some v \<Longrightarrow>
   keeps_log dl (compare_dicts_body self p key v (JObject akvs) dl)"
  unfolding same_dict_step_def by blast

lemma same_list_stepD:
  "same_list_step v \<Longrightarrow> \<not> has_target_key_path self \<Longrightarrow> idx < length avs \<Longrightarrow> avs ! idx = v \<Longrightarrow>
   keeps_log dl (items_order_body self p idx v (JArray avs) (length avs) dl)"
  unfolding same_list_step_def by blast

lemma same_dict_loop:
  "\<not> has_target_key_path self \<Longrightarrow>
   \<forall>kv\<in>set kvs. map_of akvs (fst kv) = Some (snd kv) \<and> same_dict_step (snd kv) \<Longrightarrow>
   keeps_log dl (compare_dicts self p kvs (JObject akvs) dl)"
proof (induction kvs arbitrary: dl)
  case Nil
  then show ?case by (simp add: keeps_log_def)
next
  case (Cons kv kvs)
  from Cons.prems(2) have m: "map_of akvs (fst kv) = Some (snd kv)"
    and st: "same_dict_step (snd kv)" by simp_all
  from st Cons.prems(1) m
  have "keeps_log dl (compare_dicts_body self p (fst kv) (snd kv) (JObject akvs) dl)"
    by (rule same_dict_stepD)
  then obtain dl1 where b: "compare_dicts_body self p (fst kv) (snd kv) (JObject akvs) dl = Inr dl1"
    and l: "log_lines dl1 = log_lines dl"
    by (rule keeps_logE)
  from Cons.prems(2) have r: "\<forall>kv\<in>set kvs. map_of akvs (fst kv) = Some (snd kv) \<and> same_dict_step (snd kv)"
    by simp
  from Cons.prems(1) r have "keeps_log dl1 (compare_dicts self p kvs (JObject akvs) dl1)"
    by (rule Cons.IH)
  with l have "keeps_log dl (compare_dicts self p kvs (JObject akvs) dl1)"
    by (rule keeps_log_trans)
  then show ?case using b by simp
qed

lemma same_list_loop:
  "\<not> has_target_key_path self \<Longrightarrow>
   \<forall>j<length vals. idx + j < length avs \<and> avs ! (idx + j) = vals ! j \<and> same_list_step (vals ! j) \<Longrightarrow>
   keeps_log dl (items_order_loop self p idx vals (JArray avs) (length avs) dl)"
proof (induction vals arbitrary: idx dl)
  case Nil
  then show ?case by (simp add: keeps_log_def)
next
  case (Cons v vals)
  from Cons.prems(2) have "0 < length (v # vals) \<longrightarrow> idx + 0 < length avs \<and> avs ! (idx + 0) = (v # vals) ! 0
      \<and> same_list_step ((v # vals) ! 0)" by (rule spec)
  then have h: "idx < length avs" "avs ! idx = v" "same_list_step v" by simp_all
  from h(3) Cons.prems(1) h(1) h(2)
  have "keeps_log dl (items_order_body self p idx v (JArray avs) (length avs) dl)"
    by (rule same_list_stepD)
  then obtain dl1 where b: "items_order_body self p idx v (JArray avs) (length avs) dl = Inr dl1"
    and l: "log_lines dl1 = log_lines dl"
    by (rule keeps_logE)
  have r: "\<forall>j<length vals. Suc idx + j < length avs \<and> avs ! (Suc idx + j) = vals ! j
      \<and> same_list_step (vals ! j)"
  proof (intro allI impI)
    fix j assume "j < length vals"
    then have "Suc j < length (v # vals)" by simp
    with Cons.prems(2) have "idx + Suc j < length avs \<and> avs ! (idx + Suc j) = (v # vals) ! Suc j
      \<and> same_list_step ((v # vals) ! Suc j)" by blast
    then show "Suc idx + j < length avs \<and> avs ! (Suc idx + j) = vals ! j \<and> same_list_step (vals ! j)"
      by simp
  qed
  from Cons.prems(1) r
  have "keeps_log dl1 (items_order_loop self p (Suc idx) vals (JArray avs) (length avs) dl1)"
    by (rule Cons.IH)
  with l have "keeps_log dl (items_order_loop self p (Suc idx) vals (JArray avs) (length avs) dl1)"
    by (rule keeps_log_trans)
  then show ?case using b by simp
qed

lemma keeps_log_same_lists:
  assumes nf: "\<not> has_target_key_path self"
    and st: "\<forall>x\<in>set xs. same_list_step x"
  shows "keeps_log dl (compare_lists self p xs (JArray xs) dl)"
proof -
  have "\<forall>j<length xs. 0 + j < length xs \<and> xs ! (0 + j) = xs ! j \<and> same_list_step (xs ! j)"
    using st by simp
  with nf have "keeps_log (setup_path dl p ''<array>'')
      (items_order_loop self p 0 xs (JArray xs) (length xs) (setup_path dl p ''<array>''))"
    by (rule same_list_loop)
  then have "keeps_log dl
      (items_order_loop self p 0 xs (JArray xs) (length xs) (setup_path dl p ''<array>''))"
    by (rule keeps_log_trans [OF log_lines_setup_path])
  then show ?thesis using compare_lists_same_length [OF nf, of xs xs p dl] by simp
qed

lemma keeps_log_same_dicts:
  assumes nf: "\<not> has_target_key_path self"
    and d: "distinct (map fst kvs)"
    and st: "\<forall>kv\<in>set kvs. same_dict_step (snd kv)"
  shows "keeps_log dl (compare_dicts self p kvs (JObject kvs) dl)"
proof -
  have "\<forall>kv\<in>set kvs. map_of kvs (fst kv) = Some (snd kv) \<and> same_dict_step (snd kv)"
  proof
    fix kv assume m: "kv \<in> set kvs"
    then have "(fst kv, snd kv) \<in> set kvs" by simp
    with d have "map_of kvs (fst kv) = Some (snd kv)" by (rule map_of_is_SomeI)
    with st m show "map_of kvs (fst kv) = Some (snd kv) \<and> same_dict_step (snd kv)" by blast
  qed
  with nf show ?thesis by (rule same_dict_loop)
qed

lemma same_steps_scalar:
  assumes "\<not> is_dict v" "\<not> is_list v" "nan_free v"
  shows "same_dict_step v \<and> same_list_step v"
proof -
  from assms have n: "\<not> py_ne v v" by (rule py_ne_same_scalar)
  have a: "same_dict_step v"
    unfolding same_dict_step_def
  proof (intro allI impI)
    fix self :: JSONComparator and p key :: string and akvs :: "(string \<times> json) list"
      and dl :: LogProcessor
    assume "map_of akvs key = Some v"
    with assms(1,2) have "compare_dicts_body self p key v (JObject akvs) dl =
       Inr (if py_ne v v \<and> \<not> key_to_ignore self (setup_path dl p key)
            then unequal_values (setup_path dl p key) v v else setup_path dl p key)"
      by (rule compare_dicts_body_leaf)
    with n show "keeps_log dl (compare_dicts_body self p key v (JObject akvs) dl)"
      by (simp add: keeps_log_def log_lines_setup_path)
  qed
  have b: "same_list_step v"
    unfolding same_list_step_def
  proof (intro allI impI)
    fix self :: JSONComparator and p :: string and idx :: nat and avs :: "json list"
      and dl :: LogProcessor
    assume i: "idx < length avs" and e: "avs ! idx = v"
    from assms(1,2) i have "items_order_body self p idx v (JArray avs) (length avs) dl =
       Inr (if py_ne v (avs ! idx)
            then unequal_values (setup_path dl p (''<array>['' @ str_nat idx @ '']'')) v (avs ! idx)
            else setup_path dl p (''<array>['' @ str_nat idx @ '']''))"
      by (rule items_order_body_leaf)
    with n e show "keeps_log dl (items_order_body self p idx v (JArray avs) (length avs) dl)"
      by (simp add: keeps_log_def log_lines_setup_path)
  qed
  from a b show ?thesis ..
qed

lemma same_steps: "wf_json v \<Longrightarrow> nan_free v \<Longrightarrow> same_dict_step v \<and> same_list_step v"
proof (induction v)
  case (JArray xs)
  have st: "\<forall>x\<in>set xs. same_list_step x"
  proof
    fix x assume m: "x \<in> set xs"
    from JArray.prems m have "wf_json x" "nan_free x"
      by (simp_all add: wf_jsons_iff nan_frees_iff)
    with JArray.IH [OF m] show "same_list_step x" by blast
  qed
  have k: "keeps_log dl (compare_lists self p xs (JArray xs) dl)"
    if "\<not> has_target_key_path self" for self :: JSONComparator and p dl
    using that st by (rule keeps_log_same_lists)
  have a: "same_dict_step (JArray xs)"
    unfolding same_dict_step_def
  proof (intro allI impI)
    fix self :: JSONComparator and p key :: string and akvs :: "(string \<times> json) list"
      and dl :: LogProcessor
    assume nf: "\<not> has_target_key_path self" and m: "map_of akvs key = Some (JArray xs)"
    have "keeps_log dl (compare_lists self (curr_path (setup_path dl p key)) xs (JArray xs)
        (setup_path dl p key))"
      by (rule keeps_log_trans [OF log_lines_setup_path k [OF nf]])
    then show "keeps_log dl (compare_dicts_body self p key (JArray xs) (JObject akvs) dl)"
      unfolding compare_dicts_body_list [OF m] .
  qed
  have b: "same_list_step (JArray xs)"
    unfolding same_list_step_def
  proof (intro allI impI)
    fix self :: JSONComparator and p :: string and idx :: nat and avs :: "json list"
      and dl :: LogProcessor
    assume nf: "\<not> has_target_key_path self" and i: "idx < length avs"
      and e: "avs ! idx = JArray xs"
    have "keeps_log dl (compare_lists self
        (curr_path (setup_path dl p (''<array>['' @ str_nat idx @ '']''))) xs (JArray xs)
        (setup_path dl p (''<array>['' @ str_nat idx @ '']'')))"
      by (rule keeps_log_trans [OF log_lines_setup_path k [OF nf]])
    then show "keeps_log dl (items_order_body self p idx (JArray xs) (JArray avs) (length avs) dl)"
      unfolding items_order_body_list [OF i e] .
  qed
  from a b show ?case ..
next
  case (JObject kvs)
  from JObject.prems have d: "distinct (map fst kvs)" by simp
  have st: "\<forall>kv\<in>set kvs. same_dict_step (snd kv)"
  proof
    fix kv assume m: "kv \<in> set kvs"
    from JObject.prems m have w: "wf_json (snd kv)" "nan_free (snd kv)"
      by (simp_all add: wf_items_iff nan_free_items_iff)
    have "snd kv \<in> Basic_BNFs.snds kv" by (cases kv) simp
    from JObject.IH [OF m this w] show "same_dict_step (snd kv)" by blast
  qed
  have k: "keeps_log dl (compare_dicts self p kvs (JObject kvs) dl)"
    if "\<not> has_target_key_path self" for self :: JSONComparator and p dl
    using that d st by (rule keeps_log_same_dicts)
  have a: "same_dict_step (JObject kvs)"
    unfolding same_dict_step_def
  proof (intro allI impI)
    fix self :: JSONComparator and p key :: string and akvs :: "(string \<times> json) list"
      and dl :: LogProcessor
    assume nf: "\<not> has_target_key_path self" and m: "map_of akvs key = Some (JObject kvs)"
    have "keeps_log dl (compare_dicts self (curr_path (setup_path dl p key)) kvs (JObject kvs)
        (setup_path dl p key))"
      by (rule keeps_log_trans [OF log_lines_setup_path k [OF nf]])
    then show "keeps_log dl (compare_dicts_body self p key (JObject kvs) (JObject akvs) dl)"
      unfolding compare_dicts_body_dict [OF m] .
  qed
  have b: "same_list_step (JObject kvs)"
    unfolding same_list_step_def
  proof (intro allI impI)
    fix self :: JSONComparator and p :: string and idx :: nat and avs :: "json list"
      and dl :: LogProcessor
    assume nf: "\<not> has_target_key_path self" and i: "idx < length avs"
      and e: "avs ! idx = JObject kvs"
    have "keeps_log dl (compare_dicts self
        (curr_path (setup_path dl p (''<array>['' @ str_nat idx @ '']''))) kvs (JObject kvs)
        (setup_path dl p (''<array>['' @ str_nat idx @ '']'')))"
      by (rule keeps_log_trans [OF log_lines_setup_path k [OF nf]])
    then show "keeps_log dl (items_order_body self p idx (JObject kvs) (JArray avs) (length avs) dl)"
      unfolding items_order_body_dict [OF i e] .
  qed
  from a b show ?case ..
qed (simp_all add: same_steps_scalar)

lemma compare_same_document:
  assumes nf: "\<not> has_target_key_path self"
    and l: "left_data self = d" and r: "right_data self = d"
    and w: "wf_json d" and n: "nan_free d" and root: "is_dict d \<or> is_list d"
  shows "\<exists>dl'. compare self with_actual = Inr (self\<lparr>diff_log := dl'\<rparr>)
           \<and> log_lines dl' = log_lines (diff_log self)"
proof (cases d)
  case (JObject kvs)
  from w JObject have dist: "distinct (map fst kvs)" by simp
  have st: "\<forall>kv\<in>set kvs. same_dict_step (snd kv)"
  proof
    fix kv assume m: "kv \<in> set kvs"
    from w n JObject m have "wf_json (snd kv)" "nan_free (snd kv)"
      by (simp_all add: wf_items_iff nan_free_items_iff)
    then show "same_dict_step (snd kv)" using same_steps by blast
  qed
  from nf dist st
  have "keeps_log (diff_log self)
      (compare_dicts self (if with_actual then ''RIGHT'' else ''LEFT'') kvs (JObject kvs) (diff_log self))"
    by (rule keeps_log_same_dicts)
  then obtain dl' where
    c: "compare_dicts self (if with_actual then ''RIGHT'' else ''LEFT'') kvs (JObject kvs) (diff_log self)
        = Inr dl'"
    and e: "log_lines dl' = log_lines (diff_log self)"
    by (rule keeps_logE)
  have "compare self with_actual = Inr (self\<lparr>diff_log := dl'\<rparr>)"
    using c l r JObject by (cases with_actual) (simp_all add: compare_def)
  with e show ?thesis by blast
next
  case (JArray xs)
  have st: "\<forall>x\<in>set xs. same_list_step x"
  proof
    fix x assume m: "x \<in> set xs"
    from w n JArray m have "wf_json x" "nan_free x"
      by (simp_all add: wf_jsons_iff nan_frees_iff)
    then show "same_list_step x" using same_steps by blast
  qed
  from nf st
  have "keeps_log (diff_log self)
      (compare_lists self (if with_actual then ''RIGHT'' else ''LEFT'') xs (JArray xs) (diff_log self))"
    by (rule keeps_log_same_lists)
  then obtain dl' where
    c: "compare_lists self (if with_actual then ''RIGHT'' else ''LEFT'') xs (JArray xs) (diff_log self)
        = Inr dl'"
    and e: "log_lines dl' = log_lines (diff_log self)"
    by (rule keeps_logE)
  have "compare self with_actual = Inr (self\<lparr>diff_log := dl'\<rparr>)"
    using c l r JArray by (cases with_actual) (simp_all add: compare_def)
  with e show ?thesis by blast
qed (use root in simp_all)

lemma edit_fields:
  "has_target_key_path (edit_target_prop_path_root s a b) = has_target_key_path s"
  "left_data (edit_target_prop_path_root s a b) = left_data s"
  "right_data (edit_target_prop_path_root s a b) = right_data s"
  "diff_log (edit_target_prop_path_root s a b) = diff_log s"
  "properties_to_ignore (edit_target_prop_path_root s a b) = properties_to_ignore s"
  by (simp_all add: edit_target_prop_path_root_def)

lemma clear_fields:
  "has_target_key_path (clear_log s) = has_target_key_path s"
  "left_data (clear_log s) = left_data s"
  "right_data (clear_log s) = right_data s"
  "log_lines (diff_log (clear_log s)) = []"
  "properties_to_ignore (clear_log s) = properties_to_ignore s"
  by (simp_all add: clear_log_def)

lemma update_fields:
  "has_target_key_path (s\<lparr>diff_log := dl\<rparr>) = has_target_key_path s"
  "left_data (s\<lparr>diff_log := dl\<rparr>) = left_data s"
  "right_data (s\<lparr>diff_log := dl\<rparr>) = right_data s"
  by simp_all

text \<open>
  C5, as the code has it.  A document whose root is an object or an array, which holds no NaN
  and whose arrays and objects are nested at most 100 levels deep, compared against itself,
  gives an empty log in either direction and in both.  The objects are Python dicts, so their
  keys are pairwise distinct (\<open>wf_json\<close>).  The bound on the nesting keeps the run within the
  interpreter's recursion limit, which the model does not have.
\<close>

theorem C5_shallow_document_without_nan_equals_itself:
  assumes nf: "\<not> has_target_key_path self"
    and l: "left_data self = d" and r: "right_data self = d"
    and w: "wf_json d" and n: "nan_free d" and root: "is_dict d \<or> is_list d"
    and deep: "nesting d \<le> 100"
  shows "log_of (compare_with_right self) = Inr []
       \<and> log_of (compare_with_left self) = Inr []
       \<and> log_of (full_compare self) = Inr []"
proof -
  let ?R = "edit_target_prop_path_root (clear_log self) ''DATA'' ''RIGHT''"
  let ?L = "edit_target_prop_path_root (clear_log self) ''DATA'' ''LEFT''"
  have pre: "\<not> has_target_key_path ?R" "left_data ?R = d" "right_data ?R = d"
    "\<not> has_target_key_path ?L" "left_data ?L = d" "right_data ?L = d"
    using nf l r by (simp_all add: edit_fields clear_fields)
  from compare_same_document [OF pre(1,2,3) w n root, of True] obtain dl1 where
    c1: "compare ?R True = Inr (?R\<lparr>diff_log := dl1\<rparr>)"
    and e1: "log_lines dl1 = log_lines (diff_log ?R)" by blast
  from compare_same_document [OF pre(4,5,6) w n root, of False] obtain dl2 where
    c2: "compare ?L False = Inr (?L\<lparr>diff_log := dl2\<rparr>)"
    and e2: "log_lines dl2 = log_lines (diff_log ?L)" by blast
  from e1 have z1: "log_lines dl1 = []" by (simp add: edit_fields clear_fields)
  from e2 have z2: "log_lines dl2 = []" by (simp add: edit_fields clear_fields)
  have a: "log_of (compare_with_right self) = Inr []"
    using c1 z1 by (simp add: compare_with_right_def log_of_def edit_fields)
  have b: "log_of (compare_with_left self) = Inr []"
    using c2 z2 by (simp add: compare_with_left_def log_of_def edit_fields)
  let ?M = "edit_target_prop_path_root (?R\<lparr>diff_log := dl1\<rparr>) ''RIGHT'' ''LEFT''"
  have prem: "\<not> has_target_key_path ?M" "left_data ?M = d" "right_data ?M = d"
    using pre by (simp_all add: edit_fields)
  from compare_same_document [OF prem w n root, of False] obtain dl3 where
    c3: "compare ?M False = Inr (?M\<lparr>diff_log := dl3\<rparr>)"
    and e3: "log_lines dl3 = log_lines (diff_log ?M)" by blast
  from e3 z1 have z3: "log_lines dl3 = []" by (simp add: edit_fields)
  have c: "log_of (full_compare self) = Inr []"
    using c1 c3 z3 by (simp add: full_compare_def log_of_def edit_fields)
  from a b c show ?thesis by (intro conjI)
qed

text \<open>C5 as stated fails: \<^verbatim>\<open>json.load\<close> accepts the literal \<^verbatim>\<open>NaN\<close>, and the leaf
  comparison \<^verbatim>\<open>val != act_data[key]\<close> holds for NaN against NaN.\<close>

theorem C5_nan_differs_from_itself_counterexample:
  "wf_json (JObject [(''a'', JFloat NaN)])
   \<and> log_of (compare_with_right (JSONComparator_init
        (JObject [(''a'', JFloat NaN)]) (JObject [(''a'', JFloat NaN)]) None None))
      = Inr [UnequalValues ''RIGHT.a'' (JFloat NaN) (JFloat NaN)]
   \<and> log_of (full_compare (JSONComparator_init
        (JArray [JFloat NaN]) (JArray [JFloat NaN]) None None))
      = Inr [UnequalValues ''RIGHT.<array>[0]'' (JFloat NaN) (JFloat NaN),
             UnequalValues ''LEFT.<array>[0]'' (JFloat NaN) (JFloat NaN)]"
  by code_simp

text \<open>C5 at a concrete document, nested three levels deep, with nested arrays and objects
  and every scalar type.\<close>

theorem C5_same_document_witness:
  "\<not> has_target_key_path (JSONComparator_init
      (JObject [(''cats'', JArray [JObject [(''id'', JInt 4), (''name'', JString ''Nyan'')],
                                   JObject [(''id'', JInt 2), (''w'', JFloat (Finite (5 / 2)))]]),
                (''ok'', JBool True), (''none'', JNull)])
      (JObject [(''cats'', JArray [JObject [(''id'', JInt 4), (''name'', JString ''Nyan'')],
                                   JObject [(''id'', JInt 2), (''w'', JFloat (Finite (5 / 2)))]]),
                (''ok'', JBool True), (''none'', JNull)])
      (Some ''DATA.cats.<array>.id'') None)
   \<and> log_of (compare_with_right (JSONComparator_init
      (JObject [(''cats'', JArray [JObject [(''id'', JInt 4), (''name'', JString ''Nyan'')],
                                   JObject [(''id'', JInt 2), (''w'', JFloat (Finite (5 / 2)))]]),
                (''ok'', JBool True), (''none'', JNull)])
      (JObject [(''cats'', JArray [JObject [(''id'', JInt 4), (''name'', JString ''Nyan'')],
                                   JObject [(''id'', JInt 2), (''w'', JFloat (Finite (5 / 2)))]]),
                (''ok'', JBool True), (''none'', JNull)])
      (Some ''DATA.cats.<array>.id'') None)) = Inr []
   \<and> log_of (full_compare (JSONComparator_init
      (JObject [(''cats'', JArray [JObject [(''id'', JInt 4), (''name'', JString ''Nyan'')],
                                   JObject [(''id'', JInt 2), (''w'', JFloat (Finite (5 / 2)))]]),
                (''ok'', JBool True), (''none'', JNull)])
      (JObject [(''cats'', JArray [JObject [(''id'', JInt 4), (''name'', JString ''Nyan'')],
                                   JObject [(''id'', JInt 2), (''w'', JFloat (Finite (5 / 2)))]]),
                (''ok'', JBool True), (''none'', JNull)])
      (Some ''DATA.cats.<array>.id'') None)) = Inr []"
proof -
  let ?d = "JObject [(''cats'', JArray [JObject [(''id'', JInt 4), (''name'', JString ''Nyan'')],
                                   JObject [(''id'', JInt 2), (''w'', JFloat (Finite (5 / 2)))]]),
                (''ok'', JBool True), (''none'', JNull)]"
  let ?S = "JSONComparator_init ?d ?d (Some ''DATA.cats.<array>.id'') None"
  have nf: "\<not> has_target_key_path ?S" by (simp add: JSONComparator_init_def)
  have l: "left_data ?S = ?d" by (simp add: JSONComparator_init_def)
  have r: "right_data ?S = ?d" by (simp add: JSONComparator_init_def)
  have w: "wf_json ?d" by simp
  have n: "nan_free ?d" by simp
  have root: "is_dict ?d \<or> is_list ?d" by simp
  have deep: "nesting ?d \<le> 100" by simp
  from C5_shallow_document_without_nan_equals_itself [OF nf l r w n root deep] nf
  show ?thesis by blast
qed

end
